theory Spec2Isabelle
  imports Complex_Main "HOL-Library.Multiset"
begin

section \<open>Data model\<close>

text \<open>
  The client-side authentication store of \<^verbatim>\<open>src/hooks/useAuth.tsx\<close> and the backend
  client of \<^verbatim>\<open>src/lib/api.ts\<close>. The TypeScript interfaces become records; a field that
  may be absent is an \<open>option\<close>. The fields \<^verbatim>\<open>id\<close> and \<^verbatim>\<open>notes\<close> are written \<open>id'\<close> and \<open>notes'\<close>.
\<close>

datatype gender = male | female

record AuthUser =
  id' :: string
  name :: string
  email :: string
  phone :: "string option"
  gender :: gender
  is_influencer :: bool
  avatar_url :: "string option"
  body_type :: "string option"
  style_preference :: "string option"
  color_season :: "string option"
  notes' :: "string option"
  bio :: "string option"
  category :: "string option"
  created_at :: string
  updated_at :: string

text \<open>\<^verbatim>\<open>Partial<AuthUser>\<close>: every field may be absent.\<close>

record AuthUserPartial =
  p_id :: "string option"
  p_name :: "string option"
  p_email :: "string option"
  p_phone :: "string option"
  p_gender :: "gender option"
  p_is_influencer :: "bool option"
  p_avatar_url :: "string option"
  p_body_type :: "string option"
  p_style_preference :: "string option"
  p_color_season :: "string option"
  p_notes :: "string option"
  p_bio :: "string option"
  p_category :: "string option"
  p_created_at :: "string option"
  p_updated_at :: "string option"

definition emptyPartial :: AuthUserPartial where
  "emptyPartial = \<lparr>p_id = None, p_name = None, p_email = None, p_phone = None,
     p_gender = None, p_is_influencer = None, p_avatar_url = None, p_body_type = None,
     p_style_preference = None, p_color_season = None, p_notes = None, p_bio = None,
     p_category = None, p_created_at = None, p_updated_at = None\<rparr>"

record RegisterData =
  reg_name :: string
  reg_email :: string
  reg_password :: string
  reg_phone :: "string option"
  reg_gender :: gender

record Session =
  access_token :: string
  refresh_token :: string

text \<open>The user object of the hosted auth service, as far as the store reads it.\<close>

record SupabaseUser =
  su_id :: string
  su_email :: "string option"
  su_metadata_name :: "string option"

text \<open>
  The body of a backend answer to \<^verbatim>\<open>/auth/login\<close> and \<^verbatim>\<open>/auth/register\<close>:
  \<^verbatim>\<open>{user, session?}\<close>, and the top-level token pair \<^verbatim>\<open>isAuthWithTokens\<close> looks for.
\<close>

record AuthResponse =
  r_user :: "AuthUser option"
  r_session :: "Session option"
  r_access_token :: "string option"
  r_refresh_token :: "string option"

text \<open>
  A thrown value is an \<^verbatim>\<open>Error\<close> with its message, or something that is not an
  \<^verbatim>\<open>Error\<close>. An awaited call of an external service either returns or throws.
\<close>

datatype error = Error string | NonError

datatype 'a outcome = Returned 'a | Threw error

text \<open>The \<^verbatim>\<open>{data, error}\<close> pair of a table query of the hosted database.\<close>

type_synonym db_result = "AuthUser option \<times> string option"

subsection \<open>Browser storage\<close>

text \<open>
  A stored string is represented by what \<^verbatim>\<open>JSON.parse\<close> makes of it: \<open>Json v\<close> is a
  text that parses to the profile \<open>v\<close> (\<open>None\<close> for \<^verbatim>\<open>null\<close>), as
  \<^verbatim>\<open>JSON.stringify\<close> writes it; \<open>Text t\<close> is any other text \<open>t\<close>, on which
  \<^verbatim>\<open>JSON.parse\<close> throws. A storage area is a list of key/value pairs with distinct keys.
\<close>

datatype stored = Json "AuthUser option" | Text string

type_synonym storage = "(string \<times> stored) list"

definition JSON_stringify :: "AuthUser option \<Rightarrow> stored" where
  "JSON_stringify v = Json v"

fun JSON_parse :: "stored \<Rightarrow> error + AuthUser option" where
  "JSON_parse (Json v) = Inr v"
| "JSON_parse (Text t) = Inl (Error ''SyntaxError'')"

text \<open>Truthiness of a value read with \<^verbatim>\<open>getItem\<close>: a missing key and the empty string are falsy.\<close>

fun truthy :: "stored option \<Rightarrow> bool" where
  "truthy None = False"
| "truthy (Some (Json v)) = True"
| "truthy (Some (Text t)) = (t \<noteq> [])"

definition getItem :: "storage \<Rightarrow> string \<Rightarrow> stored option" where
  "getItem st k = map_of st k"

definition removeItem :: "storage \<Rightarrow> string \<Rightarrow> storage" where
  "removeItem st k = filter (\<lambda>kv. fst kv \<noteq> k) st"

definition setItem :: "storage \<Rightarrow> string \<Rightarrow> stored \<Rightarrow> storage" where
  "setItem st k v =
     (if k \<in> set (map fst st)
      then map (\<lambda>kv. if fst kv = k then (k, v) else kv) st
      else st @ [(k, v)])"

definition keys :: "storage \<Rightarrow> string list" where
  "keys st = map fst st"

definition startsWith :: "string \<Rightarrow> string \<Rightarrow> bool" where
  "startsWith s pre = (take (length pre) s = pre)"

text \<open>
  \<^verbatim>\<open>Object.keys(storage).forEach((key) => { if (key.startsWith('sb-')) storage.removeItem(key); })\<close>:
  the keys are listed once, then visited in order.
\<close>

definition removeSupabaseKeys :: "storage \<Rightarrow> storage" where
  "removeSupabaseKeys st =
     fold (\<lambda>key acc. if startsWith key ''sb-'' then removeItem acc key else acc) (keys st) st"

subsection \<open>The store and its surroundings\<close>

datatype toast = toast_success string | toast_error string

text \<open>The calls the store makes to the backend and to the hosted service, in the order made.\<close>

datatype request =
    BackendLogin string string
  | BackendRegister RegisterData
  | AuthGetSession
  | AuthGetUser "string option"
  | AuthSetSession "Session option"
  | AuthSignOut
  | DbSelect string
  | DbInsert AuthUserPartial
  | DbUpdate AuthUserPartial string

text \<open>
  The phase of the one login task that can be in flight: suspended inside
  \<^verbatim>\<open>apiClient.login\<close> at \<^verbatim>\<open>await this._fetch(...)\<close> or at
  \<^verbatim>\<open>await sb.auth.setSession(...)\<close> (holding the backend's answer), or at
  \<^verbatim>\<open>await supabase.auth.getSession()\<close>.
\<close>

datatype login_phase = AwaitFetch | AwaitSetSession "AuthResponse option" | AwaitGetSession

text \<open>
  \<open>user\<close> and \<open>isLoading\<close> are the React state, \<open>loginPromiseRef\<close> the ref holding the
  in-flight login promise (promises are numbered). The rest is the world around the store:
  the two storage areas, the toasts shown, the requests sent, the settled login promises with
  their values, the promise each \<^verbatim>\<open>login\<close> call handed to its caller, the background
  profile fetches started, and whether a page reload is scheduled.
\<close>

record state =
  user :: "AuthUser option"
  isLoading :: bool
  loginPromiseRef :: "nat option"
  loginTask :: "login_phase option"
  localStorage :: storage
  sessionStorage :: storage
  toasts :: "toast list"
  requests :: "request list"
  settled :: "(nat \<times> bool outcome) list"
  handedOut :: "nat list"
  nextPromise :: nat
  background :: "string list"
  reloadScheduled :: bool

definition isAuthenticated :: "state \<Rightarrow> bool" where
  "isAuthenticated s = (user s \<noteq> None)"

definition initial :: state where
  "initial = \<lparr>user = None, isLoading = True, loginPromiseRef = None, loginTask = None,
     localStorage = [], sessionStorage = [], toasts = [], requests = [], settled = [],
     handedOut = [], nextPromise = 0, background = [], reloadScheduled = False\<rparr>"

definition send :: "request \<Rightarrow> state \<Rightarrow> state" where
  "send r s = s\<lparr>requests := requests s @ [r]\<rparr>"

definition toast :: "toast \<Rightarrow> state \<Rightarrow> state" where
  "toast t s = s\<lparr>toasts := toasts s @ [t]\<rparr>"

text \<open>\<^verbatim>\<open>localStorage.setItem('auth_user', JSON.stringify(p)); setUser(p);\<close>\<close>

definition storeProfile :: "AuthUser option \<Rightarrow> state \<Rightarrow> state" where
  "storeProfile p s =
     s\<lparr>localStorage := setItem (localStorage s) ''auth_user'' (JSON_stringify p), user := p\<rparr>"

text \<open>\<^verbatim>\<open>setUser(null); localStorage.removeItem('auth_user');\<close> (in either order)\<close>

definition clearProfile :: "state \<Rightarrow> state" where
  "clearProfile s = s\<lparr>user := None, localStorage := removeItem (localStorage s) ''auth_user''\<rparr>"

text \<open>\<^verbatim>\<open>error instanceof Error ? error.message : fallback\<close>\<close>

fun messageOf :: "error \<Rightarrow> string \<Rightarrow> string" where
  "messageOf (Error m) fallback = m"
| "messageOf NonError fallback = fallback"

section \<open>The backend client (\<^verbatim>\<open>src/lib/api.ts\<close>)\<close>

text \<open>
  What the outside world answers is an argument of each operation: one field for each awaited
  call. \<open>fetch_result\<close> is what \<^verbatim>\<open>_fetch\<close> gives (\<open>Returned None\<close> for a body that is
  \<^verbatim>\<open>null\<close>; a thrown error for a transport failure, a non-2xx status or a timeout).
\<close>

record api_env =
  fetch_result :: "AuthResponse option outcome"
  setSession_result :: "string option outcome"

definition isAuthWithTokens :: "AuthResponse option \<Rightarrow> bool" where
  "isAuthWithTokens d =
     (case d of None \<Rightarrow> False
      | Some r \<Rightarrow> r_access_token r \<noteq> None \<and> r_refresh_token r \<noteq> None)"

text \<open>\<^verbatim>\<open>{access_token: response.access_token, refresh_token: response.refresh_token}\<close>\<close>

definition tokenPair :: "AuthResponse option \<Rightarrow> Session option" where
  "tokenPair d =
     (case d of None \<Rightarrow> None
      | Some r \<Rightarrow>
          (case (r_access_token r, r_refresh_token r) of
             (Some a, Some b) \<Rightarrow> Some \<lparr>access_token = a, refresh_token = b\<rparr>
           | _ \<Rightarrow> None))"

text \<open>
  \<^verbatim>\<open>ApiClient.login\<close> after its request has been sent: the session is installed when the
  answer carries a token pair, and an error thrown anywhere is thrown on.
\<close>

definition apiClient_login_settle :: "api_env \<Rightarrow> state \<Rightarrow> AuthResponse option outcome \<times> state" where
  "apiClient_login_settle env s =
     (case fetch_result env of
        Threw e \<Rightarrow> (Threw e, s)
      | Returned response \<Rightarrow>
          if isAuthWithTokens response
          then (let s1 = send (AuthSetSession (tokenPair response)) s
                in case setSession_result env of
                     Threw e \<Rightarrow> (Threw e, s1)
                   | Returned x \<Rightarrow> (Returned response, s1))
          else (Returned response, s))"

text \<open>\<^verbatim>\<open>ApiClient.login\<close> from its call to its return.\<close>

definition apiClient_login :: "string \<Rightarrow> string \<Rightarrow> api_env \<Rightarrow> state \<Rightarrow> AuthResponse option outcome \<times> state" where
  "apiClient_login email' password env s =
     apiClient_login_settle env (send (BackendLogin email' password) s)"

definition apiClient_register :: "RegisterData \<Rightarrow> api_env \<Rightarrow> state \<Rightarrow> AuthResponse option outcome \<times> state" where
  "apiClient_register userData env s = (fetch_result env, send (BackendRegister userData) s)"

text \<open>
  \<^verbatim>\<open>ApiClient.updateUser(_id, userData)\<close> (\<open>unused_id\<close> is its \<^verbatim>\<open>_id\<close>): the row is
  the one of the user the hosted service reports; \<open>getUser_pair\<close> is its
  \<^verbatim>\<open>{data: {user}, error}\<close>.
\<close>

record api_update_env =
  getUser_pair :: "(SupabaseUser option \<times> string option) outcome"
  api_update_result :: "db_result outcome"
  api_now :: string

definition apiClient_updateUser ::
  "string \<Rightarrow> AuthUserPartial \<Rightarrow> api_update_env \<Rightarrow> state \<Rightarrow> (error + AuthUser option) \<times> state" where
  "apiClient_updateUser unused_id userData env s =
     (let s1 = send (AuthGetUser None) s in
      case getUser_pair env of
        Threw e \<Rightarrow> (Inl e, s1)
      | Returned (u, userError) \<Rightarrow>
          (case userError of
             Some m \<Rightarrow> (Inl (Error m), s1)
           | None \<Rightarrow>
              (case u of
                 None \<Rightarrow> (Inl (Error ''Not authenticated''), s1)
               | Some au \<Rightarrow>
                  (let s2 = send (DbUpdate (userData\<lparr>p_updated_at := Some (api_now env)\<rparr>) (su_id au)) s1
                   in case api_update_result env of
                        Threw e \<Rightarrow> (Inl e, s2)
                      | Returned (d, err) \<Rightarrow>
                          (case err of Some m \<Rightarrow> (Inl (Error m), s2) | None \<Rightarrow> (Inr d, s2))))))"

section \<open>The auth-state store (\<^verbatim>\<open>src/hooks/useAuth.tsx\<close>, first variant)\<close>

text \<open>
  An operation reads \<open>user\<close> from the state it was called in: the value its closure
  captured. Console output is not modelled; storage calls and toasts do not throw.
\<close>

definition tokenOf :: "Session option \<Rightarrow> string option" where
  "tokenOf session =
     (case session of None \<Rightarrow> None
      | Some x \<Rightarrow> if access_token x \<noteq> [] then Some (access_token x) else None)"

record fetch_env =
  getUser_result :: "SupabaseUser option outcome"
  select_result :: "db_result outcome"
  insert_result :: "db_result outcome"
  now :: string

text \<open>\<^verbatim>\<open>authUser.user_metadata?.name || authUser.email\<close>\<close>

definition nameOrEmail :: "SupabaseUser \<Rightarrow> string option" where
  "nameOrEmail au =
     (case su_metadata_name au of
        None \<Rightarrow> su_email au
      | Some n \<Rightarrow> if n \<noteq> [] then Some n else su_email au)"

definition newProfileRow :: "SupabaseUser \<Rightarrow> string \<Rightarrow> AuthUserPartial" where
  "newProfileRow au t =
     emptyPartial\<lparr>p_id := Some (su_id au), p_name := nameOrEmail au, p_email := su_email au,
       p_created_at := Some t, p_updated_at := Some t\<rparr>"

definition fetchUserProfile :: "string \<Rightarrow> fetch_env \<Rightarrow> state \<Rightarrow> state" where
  "fetchUserProfile token env s =
     (let s1 = send (AuthGetUser (Some token)) s in
      (case getUser_result env of
         Threw e \<Rightarrow> s1
       | Returned None \<Rightarrow> s1
       | Returned (Some authUser) \<Rightarrow>
          (let s2 = send (DbSelect (su_id authUser)) s1 in
           case select_result env of
             Threw e \<Rightarrow> s2
           | Returned (profile, err) \<Rightarrow>
               if err \<noteq> None \<or> profile = None
               then (let s3 = send (DbInsert (newProfileRow authUser (now env))) s2 in
                     case insert_result env of
                       Threw e \<Rightarrow> s3
                     | Returned (newProfile, insertError) \<Rightarrow>
                         if insertError \<noteq> None \<or> newProfile = None then s3
                         else storeProfile newProfile s3)
               else storeProfile profile s2))
      \<lparr>isLoading := False\<rparr>)"

subsection \<open>register\<close>

definition register :: "RegisterData \<Rightarrow> api_env \<Rightarrow> state \<Rightarrow> (error + unit) \<times> state" where
  "register data env s =
     (let (r, s1) = apiClient_register data env (s\<lparr>isLoading := True\<rparr>) in
      case r of
        Threw e \<Rightarrow>
          (Inl e, (toast (toast_error (messageOf e ''Registration failed'')) s1)\<lparr>isLoading := False\<rparr>)
      | Returned None \<Rightarrow> \<comment> \<open>\<^verbatim>\<open>response.session\<close> of \<^verbatim>\<open>null\<close> throws a TypeError\<close>
          (Inl (Error ''TypeError''), (toast (toast_error ''TypeError'') s1)\<lparr>isLoading := False\<rparr>)
      | Returned (Some response) \<Rightarrow>
          (let s2 = (case r_session response of
                       None \<Rightarrow> s1
                     | Some x \<Rightarrow> send (AuthSetSession (Some x)) s1);
               s3 = (case r_user response of
                       None \<Rightarrow> s2
                     | Some u \<Rightarrow> storeProfile (Some u) s2);
               s4 = toast (toast_success ''Account created successfully!'') s3
           in (Inr (), s4\<lparr>isLoading := False\<rparr>)))"

subsection \<open>login\<close>

text \<open>
  \<^verbatim>\<open>login\<close> is an async function: a call runs up to its first \<^verbatim>\<open>await\<close> and hands a
  promise to its caller; the rest runs when the awaited call settles. \<open>login_call\<close> is the
  part run by the call itself: with a login in flight it hands out the promise in
  \<open>loginPromiseRef\<close>; otherwise it sets the loading flag, starts the task (which sends the
  login request and suspends), stores the task's promise in the ref and hands it out. (The
  promise an async function returns takes the value of the promise it is given, so the
  caller observes the value of the promise recorded in \<open>handedOut\<close>.)
\<close>

definition login_call :: "string \<Rightarrow> string \<Rightarrow> state \<Rightarrow> state" where
  "login_call email' password s =
     (case loginPromiseRef s of
        Some p \<Rightarrow> s\<lparr>handedOut := handedOut s @ [p]\<rparr>
      | None \<Rightarrow>
          (let s1 = send (BackendLogin email' password) (s\<lparr>isLoading := True\<rparr>);
               p = nextPromise s1
           in s1\<lparr>loginTask := Some AwaitFetch, loginPromiseRef := Some p,
                 nextPromise := Suc p, handedOut := handedOut s1 @ [p]\<rparr>))"

text \<open>The \<^verbatim>\<open>finally\<close> block; the task's promise \<open>p\<close> settles with the value returned.\<close>

definition login_finally :: "bool \<Rightarrow> nat \<Rightarrow> state \<Rightarrow> state" where
  "login_finally b p s =
     s\<lparr>isLoading := False, loginPromiseRef := None, loginTask := None,
       settled := settled s @ [(p, Returned b)]\<rparr>"

text \<open>The \<^verbatim>\<open>catch\<close> block, which returns false.\<close>

definition login_catch :: "error \<Rightarrow> nat \<Rightarrow> state \<Rightarrow> state" where
  "login_catch e p s =
     login_finally False p (clearProfile (toast (toast_error (messageOf e ''Login failed'')) s))"

text \<open>\<^verbatim>\<open>response?.user\<close>\<close>

definition userOf :: "AuthResponse option \<Rightarrow> AuthUser option" where
  "userOf response = (case response of None \<Rightarrow> None | Some r \<Rightarrow> r_user r)"

text \<open>
  The task once \<^verbatim>\<open>apiClient.login\<close> has returned \<open>response\<close>: up to the
  \<^verbatim>\<open>await\<close> of \<^verbatim>\<open>getSession\<close>, or to the end when the answer carries no user.
\<close>

definition login_withResponse :: "AuthResponse option \<Rightarrow> nat \<Rightarrow> state \<Rightarrow> state" where
  "login_withResponse response p s =
     (case userOf response of
        Some u \<Rightarrow>
          (send AuthGetSession (storeProfile (Some u) s))\<lparr>loginTask := Some AwaitGetSession\<rparr>
      | None \<Rightarrow>
          login_finally False p
            (clearProfile (toast (toast_error ''Login failed: No user returned'') s)))"

text \<open>
  The task resumed when the fetch of \<^verbatim>\<open>apiClient.login\<close> settles: an error is thrown on
  to the \<^verbatim>\<open>catch\<close> block of \<^verbatim>\<open>login\<close>; an answer with a token pair has the session
  installed, which is awaited; any other answer is returned.
\<close>

definition login_afterFetch :: "AuthResponse option outcome \<Rightarrow> state \<Rightarrow> state" where
  "login_afterFetch r s =
     (case (loginTask s, loginPromiseRef s) of
        (Some AwaitFetch, Some p) \<Rightarrow>
          (case r of
             Threw e \<Rightarrow> login_catch e p s
           | Returned response \<Rightarrow>
               if isAuthWithTokens response
               then (send (AuthSetSession (tokenPair response)) s)
                      \<lparr>loginTask := Some (AwaitSetSession response)\<rparr>
               else login_withResponse response p s)
      | _ \<Rightarrow> s)"

text \<open>The task resumed when that \<^verbatim>\<open>setSession\<close> settles.\<close>

definition login_afterSetSession :: "string option outcome \<Rightarrow> state \<Rightarrow> state" where
  "login_afterSetSession r s =
     (case (loginTask s, loginPromiseRef s) of
        (Some (AwaitSetSession response), Some p) \<Rightarrow>
          (case r of
             Threw e \<Rightarrow> login_catch e p s
           | Returned x \<Rightarrow> login_withResponse response p s)
      | _ \<Rightarrow> s)"

text \<open>
  The task resumed when \<^verbatim>\<open>supabase.auth.getSession\<close> settles. With a token the profile
  fetch is started and not awaited: it is recorded in \<open>background\<close> and run later.
\<close>

definition login_afterGetSession :: "Session option outcome \<Rightarrow> state \<Rightarrow> state" where
  "login_afterGetSession r s =
     (case (loginTask s, loginPromiseRef s) of
        (Some AwaitGetSession, Some p) \<Rightarrow>
          (let s1 = (case r of
                       Threw e \<Rightarrow> s
                     | Returned session \<Rightarrow>
                         (case tokenOf session of
                            None \<Rightarrow> s
                          | Some token \<Rightarrow> s\<lparr>background := background s @ [token]\<rparr>))
           in login_finally True p (toast (toast_success ''Logged in successfully!'') s1))
      | _ \<Rightarrow> s)"

text \<open>
  One login run from call to completion, with nothing in between (a resumption that the
  task is not waiting for does nothing).
\<close>

record login_env =
  api :: api_env
  getSession_result :: "Session option outcome"

definition login :: "string \<Rightarrow> string \<Rightarrow> login_env \<Rightarrow> state \<Rightarrow> state" where
  "login email' password env s =
     login_afterGetSession (getSession_result env)
       (login_afterSetSession (setSession_result (api env))
          (login_afterFetch (fetch_result (api env)) (login_call email' password s)))"

text \<open>The value a caller holding promise \<open>p\<close> observes, once \<open>p\<close> has settled.\<close>

definition promiseValue :: "state \<Rightarrow> nat \<Rightarrow> bool outcome option" where
  "promiseValue s p = map_of (settled s) p"

text \<open>Calls and settlements in any order.\<close>

datatype event =
    Call string string
  | FetchSettled "AuthResponse option outcome"
  | SetSessionSettled "string option outcome"
  | GetSessionSettled "Session option outcome"

fun step :: "event \<Rightarrow> state \<Rightarrow> state" where
  "step (Call e pw) s = login_call e pw s"
| "step (FetchSettled r) s = login_afterFetch r s"
| "step (SetSessionSettled r) s = login_afterSetSession r s"
| "step (GetSessionSettled r) s = login_afterGetSession r s"

definition run :: "event list \<Rightarrow> state \<Rightarrow> state" where
  "run es s = fold step es s"

fun isCall :: "event \<Rightarrow> bool" where
  "isCall (Call e pw) = True"
| "isCall ev = False"

fun isLoginRequest :: "request \<Rightarrow> bool" where
  "isLoginRequest (BackendLogin e pw) = True"
| "isLoginRequest r = False"

definition loginRequests :: "state \<Rightarrow> request list" where
  "loginRequests s = filter isLoginRequest (requests s)"

subsection \<open>logout\<close>

text \<open>
  The statements of the outer \<^verbatim>\<open>try\<close> block after the sign-out attempt, one by one, and
  the \<^verbatim>\<open>catch\<close> block. The callback that the timer runs 500 ms later (a second sign-out,
  a second purge and the page reload) is recorded as scheduled only.
\<close>

definition logout_try :: "(state \<Rightarrow> state) list" where
  "logout_try =
     [\<lambda>s. s\<lparr>localStorage := removeItem (localStorage s) ''auth_user''\<rparr>,
      \<lambda>s. s\<lparr>user := None\<rparr>,
      \<lambda>s. s\<lparr>localStorage := removeSupabaseKeys (localStorage s)\<rparr>,
      \<lambda>s. s\<lparr>sessionStorage := removeSupabaseKeys (sessionStorage s)\<rparr>,
      \<lambda>s. s\<lparr>sessionStorage := []\<rparr>,
      toast (toast_success ''Logged out successfully''),
      \<lambda>s. s\<lparr>reloadScheduled := True\<rparr>]"

definition logout_catch :: "state \<Rightarrow> state" where
  "logout_catch s =
     (let s1 = s\<lparr>localStorage := removeItem (localStorage s) ''auth_user''\<rparr>;
          s2 = s1\<lparr>user := None\<rparr>;
          s3 = s2\<lparr>localStorage := removeSupabaseKeys (localStorage s2)\<rparr>;
          s4 = s3\<lparr>sessionStorage := removeSupabaseKeys (sessionStorage s3)\<rparr>;
          s5 = s4\<lparr>sessionStorage := []\<rparr>;
          s6 = toast (toast_success ''Logged out'') s5
      in s6\<lparr>reloadScheduled := True\<rparr>)"

text \<open>
  \<open>failsAt = Some k\<close>: statement \<open>k\<close> of \<open>logout_try\<close> throws, so the statements before
  it have run and the \<^verbatim>\<open>catch\<close> block follows. Errors of the sign-out attempt are caught
  by the inner \<^verbatim>\<open>try\<close>.
\<close>

record logout_env =
  signOut_result :: "string option outcome"
  failsAt :: "nat option"

definition runStatements :: "(state \<Rightarrow> state) list \<Rightarrow> state \<Rightarrow> state" where
  "runStatements fs s = fold (\<lambda>f acc. f acc) fs s"

definition logout :: "logout_env \<Rightarrow> state \<Rightarrow> state" where
  "logout env s =
     (let s1 = send AuthSignOut s;
          s2 = (case signOut_result env of
                  Threw e \<Rightarrow> s1
                | Returned x \<Rightarrow> send (AuthSetSession None) s1)
      in case failsAt env of
           None \<Rightarrow> runStatements logout_try s2
         | Some k \<Rightarrow>
             if k < length logout_try
             then logout_catch (runStatements (take k logout_try) s2)
             else runStatements logout_try s2)"

subsection \<open>updateUser\<close>

record update_env =
  update_result :: "db_result outcome"
  update_now :: string

definition updateUser :: "AuthUserPartial \<Rightarrow> update_env \<Rightarrow> state \<Rightarrow> (error + unit) \<times> state" where
  "updateUser data env s =
     (case user s of
        None \<Rightarrow> (Inl (Error ''No user logged in''), toast (toast_error ''No user logged in'') s)
      | Some u \<Rightarrow>
          (let s1 = send (DbUpdate (data\<lparr>p_updated_at := Some (update_now env)\<rparr>) (id' u)) s in
           case update_result env of
             Threw e \<Rightarrow> (Inl e, toast (toast_error (messageOf e ''Update failed'')) s1)
           | Returned (updatedProfile, err) \<Rightarrow>
               if err \<noteq> None
               then (Inl (Error ''Failed to update profile''),
                     toast (toast_error ''Failed to update profile'') s1)
               else (Inr (),
                     toast (toast_success ''Profile updated successfully!'')
                       (storeProfile updatedProfile s1))))"

subsection \<open>refreshUser, and the check on mount\<close>

record refresh_env =
  session_result :: "Session option outcome"
  profile_env :: fetch_env

definition refreshUser :: "refresh_env \<Rightarrow> state \<Rightarrow> state" where
  "refreshUser env s =
     (let s1 = send AuthGetSession s in
      case session_result env of
        Threw e \<Rightarrow> s1
      | Returned session \<Rightarrow>
          (case tokenOf session of
             Some token \<Rightarrow> fetchUserProfile token (profile_env env) s1
           | None \<Rightarrow>
               (case getItem (localStorage s1) ''auth_user'' of
                  None \<Rightarrow> s1
                | Some storedUser \<Rightarrow>
                    if truthy (Some storedUser) \<and> user s = None
                    then (case JSON_parse storedUser of
                            Inr v \<Rightarrow> s1\<lparr>user := v\<rparr>
                          | Inl e \<Rightarrow> s1\<lparr>localStorage := removeItem (localStorage s1) ''auth_user''\<rparr>)
                    else s1)))"

definition checkAuth :: "refresh_env \<Rightarrow> state \<Rightarrow> state" where
  "checkAuth env s =
     (let s1 = send AuthGetSession s in
      (case session_result env of
         Threw e \<Rightarrow> s1
       | Returned session \<Rightarrow>
           (case tokenOf session of
              Some token \<Rightarrow> fetchUserProfile token (profile_env env) s1
            | None \<Rightarrow> if user s = None then clearProfile s1 else s1))
      \<lparr>isLoading := False\<rparr>)"

datatype auth_event = SIGNED_IN | SIGNED_OUT | TOKEN_REFRESHED | OTHER_EVENT

definition onAuthStateChange :: "auth_event \<Rightarrow> Session option \<Rightarrow> fetch_env \<Rightarrow> state \<Rightarrow> state" where
  "onAuthStateChange ev session env s =
     (case (ev, tokenOf session) of
        (SIGNED_IN, Some token) \<Rightarrow> fetchUserProfile token env s
      | (SIGNED_OUT, t) \<Rightarrow> (clearProfile s)\<lparr>isLoading := False\<rparr>
      | (TOKEN_REFRESHED, Some token) \<Rightarrow> fetchUserProfile token env s
      | _ \<Rightarrow> s)"

section \<open>The other variants of the store in \<^verbatim>\<open>src/hooks/useAuth.tsx\<close>\<close>

subsection \<open>Second variant: fetchUserProfile and refreshUser\<close>

text \<open>
  The second variant's profile fetch shows a toast and sets the user to \<^verbatim>\<open>null\<close> on each
  of its failure branches, and has no \<^verbatim>\<open>finally\<close>; its \<^verbatim>\<open>refreshUser\<close> has the text
  of the first variant's.
\<close>

definition fetchUserProfile_v2 :: "string \<Rightarrow> fetch_env \<Rightarrow> state \<Rightarrow> state" where
  "fetchUserProfile_v2 token env s =
     (let s1 = send (AuthGetUser (Some token)) s in
      case getUser_result env of
        Threw e \<Rightarrow> (toast (toast_error ''Failed to fetch user profile'') s1)\<lparr>user := None\<rparr>
      | Returned None \<Rightarrow> (toast (toast_error ''No Supabase user found'') s1)\<lparr>user := None\<rparr>
      | Returned (Some authUser) \<Rightarrow>
          (let s2 = send (DbSelect (su_id authUser)) s1 in
           case select_result env of
             Threw e \<Rightarrow> (toast (toast_error ''Failed to fetch user profile'') s2)\<lparr>user := None\<rparr>
           | Returned (profile, err) \<Rightarrow>
               if err \<noteq> None \<or> profile = None
               then (let s3 = send (DbInsert (newProfileRow authUser (now env))) s2 in
                     case insert_result env of
                       Threw e \<Rightarrow>
                         (toast (toast_error ''Failed to fetch user profile'') s3)\<lparr>user := None\<rparr>
                     | Returned (newProfile, insertError) \<Rightarrow>
                         if insertError \<noteq> None \<or> newProfile = None
                         then (toast (toast_error ''Failed to create user profile'') s3)\<lparr>user := None\<rparr>
                         else storeProfile newProfile s3)
               else storeProfile profile s2))"

definition refreshUser_v2 :: "refresh_env \<Rightarrow> state \<Rightarrow> state" where
  "refreshUser_v2 env s =
     (let s1 = send AuthGetSession s in
      case session_result env of
        Threw e \<Rightarrow> s1
      | Returned session \<Rightarrow>
          (case tokenOf session of
             Some token \<Rightarrow> fetchUserProfile_v2 token (profile_env env) s1
           | None \<Rightarrow>
               (case getItem (localStorage s1) ''auth_user'' of
                  None \<Rightarrow> s1
                | Some storedUser \<Rightarrow>
                    if truthy (Some storedUser) \<and> user s = None
                    then (case JSON_parse storedUser of
                            Inr v \<Rightarrow> s1\<lparr>user := v\<rparr>
                          | Inl e \<Rightarrow> s1\<lparr>localStorage := removeItem (localStorage s1) ''auth_user''\<rparr>)
                    else s1)))"

subsection \<open>Third variant: login and logout\<close>

text \<open>
  The third variant's \<^verbatim>\<open>login\<close> is typed \<^verbatim>\<open>Promise<void>\<close>, keeps no in-flight promise
  and throws the caught error on. \<^verbatim>\<open>error.message || 'Login failed'\<close>:
\<close>

fun messageOr :: "error \<Rightarrow> string \<Rightarrow> string" where
  "messageOr (Error m) fallback = (if m \<noteq> [] then m else fallback)"
| "messageOr NonError fallback = fallback"

definition login_v3 :: "string \<Rightarrow> string \<Rightarrow> api_env \<Rightarrow> state \<Rightarrow> (error + unit) \<times> state" where
  "login_v3 email' password env s =
     (let (r, s1) = apiClient_login email' password env (s\<lparr>isLoading := True\<rparr>) in
      case r of
        Threw e \<Rightarrow>
          (Inl e, (clearProfile (toast (toast_error (messageOr e ''Login failed'')) s1))
                    \<lparr>isLoading := False\<rparr>)
      | Returned None \<Rightarrow>
          (Inr (), (clearProfile (toast (toast_error ''Login failed: No user or session returned'') s1))
                     \<lparr>isLoading := False\<rparr>)
      | Returned (Some response) \<Rightarrow>
          if r_user response = None \<and> r_session response = None
          then (Inr (), (clearProfile
                           (toast (toast_error ''Login failed: No user or session returned'') s1))
                          \<lparr>isLoading := False\<rparr>)
          else (let s2 = (case r_session response of
                            None \<Rightarrow> s1
                          | Some x \<Rightarrow> send (AuthSetSession (Some x)) s1);
                    s3 = (case r_user response of
                            Some u \<Rightarrow> toast (toast_success ''Logged in successfully!'')
                                        (storeProfile (Some u) s2)
                          | None \<Rightarrow> clearProfile
                                      (toast (toast_error ''Login failed: No user returned'') s2))
                in (Inr (), s3\<lparr>isLoading := False\<rparr>)))"

text \<open>
  The third variant's \<^verbatim>\<open>logout\<close>: it removes the cached profile and the key
  \<^verbatim>\<open>supabase.auth.token\<close>, and clears the session storage; its \<^verbatim>\<open>catch\<close> block removes
  the cached profile only.
\<close>

definition logout_try_v3 :: "(state \<Rightarrow> state) list" where
  "logout_try_v3 =
     [\<lambda>s. s\<lparr>localStorage := removeItem (localStorage s) ''auth_user''\<rparr>,
      \<lambda>s. s\<lparr>user := None\<rparr>,
      \<lambda>s. s\<lparr>localStorage := removeItem (localStorage s) ''supabase.auth.token''\<rparr>,
      \<lambda>s. s\<lparr>sessionStorage := []\<rparr>,
      toast (toast_success ''Logged out successfully''),
      \<lambda>s. s\<lparr>reloadScheduled := True\<rparr>]"

definition logout_catch_v3 :: "state \<Rightarrow> state" where
  "logout_catch_v3 s =
     (let s1 = s\<lparr>localStorage := removeItem (localStorage s) ''auth_user''\<rparr>;
          s2 = s1\<lparr>user := None\<rparr>;
          s3 = toast (toast_success ''Logged out'') s2
      in s3\<lparr>reloadScheduled := True\<rparr>)"

definition logout_v3 :: "logout_env \<Rightarrow> state \<Rightarrow> state" where
  "logout_v3 env s =
     (let s1 = send AuthSignOut s in
      case failsAt env of
        None \<Rightarrow> runStatements logout_try_v3 s1
      | Some k \<Rightarrow>
          if k < length logout_try_v3
          then logout_catch_v3 (runStatements (take k logout_try_v3) s1)
          else runStatements logout_try_v3 s1)"

section \<open>The mock image search endpoint (\<^verbatim>\<open>POST /image\<close> of the search routes)\<close>

text \<open>
  JavaScript numbers are taken as real numbers: the handler only compares similarities, and
  finite doubles are ordered as the reals they denote. \<open>prod_\<close> fields are the columns the
  query selects; \<open>prod_influencer\<close> is \<^verbatim>\<open>product.users?.name\<close>.
\<close>

datatype source = internal | external

record SearchResult =
  sr_id :: string
  title :: string
  price :: "string option"
  sr_image :: string
  source :: source
  url :: "string option"
  similarity :: "real option"
  description :: "string option"
  influencer :: "string option"

record Product =
  prod_id :: string
  prod_name :: string
  prod_description :: "string option"
  prod_price :: "string option"
  prod_media_urls :: "string list option"
  prod_influencer :: "string option"

record SearchBody =
  success :: bool
  results :: "SearchResult list"
  totalResults :: nat
  processingTime :: string

datatype search_response =
    Status200 SearchBody
  | Status400 string string
  | Status500 string string "string option"

text \<open>The rupee sign of the mock prices, as its three UTF-8 bytes.\<close>

definition rupee :: string where
  "rupee = [CHR 0xE2, CHR 0x82, CHR 0xB9]"

definition externalResults :: "SearchResult list" where
  "externalResults =
     [\<lparr>sr_id = ''ext-1'', title = ''Similar Product - Amazon'', price = Some (rupee @ ''15,999''),
       sr_image = ''https://images.unsplash.com/photo-1484704849700-f032a568e944?ixlib=rb-4.0.3&auto=format&fit=crop&w=500&q=80'',
       source = external, url = Some ''https://amazon.in'', similarity = Some 0.92,
       description = Some ''Similar product found on Amazon'', influencer = None\<rparr>,
      \<lparr>sr_id = ''ext-2'', title = ''Related Item - Flipkart'', price = Some (rupee @ ''18,499''),
       sr_image = ''https://images.unsplash.com/photo-1583394838336-acd977736f90?ixlib=rb-4.0.3&auto=format&fit=crop&w=500&q=80'',
       source = external, url = Some ''https://flipkart.com'', similarity = Some 0.87,
       description = Some ''Related product available on Flipkart'', influencer = None\<rparr>]"

text \<open>\<^verbatim>\<open>product.media_urls?.[0] || ''\<close>\<close>

definition firstMedia :: "string list option \<Rightarrow> string" where
  "firstMedia m = (case m of None \<Rightarrow> [] | Some [] \<Rightarrow> [] | Some (u # us) \<Rightarrow> u)"

text \<open>One internal result; \<open>r\<close> is the value \<^verbatim>\<open>Math.random()\<close> returned for it.\<close>

definition internalResult :: "Product \<Rightarrow> real \<Rightarrow> SearchResult" where
  "internalResult product r =
     \<lparr>sr_id = prod_id product, title = prod_name product, price = prod_price product,
      sr_image = firstMedia (prod_media_urls product), source = internal, url = None,
      similarity = Some (r * 0.3 + 0.7), description = prod_description product,
      influencer = prod_influencer product\<rparr>"

text \<open>\<^verbatim>\<open>(internalProducts || []).map(...)\<close>; \<open>rand i\<close> is the \<open>i\<close>-th random draw.\<close>

definition internalResults :: "Product list option \<Rightarrow> (nat \<Rightarrow> real) \<Rightarrow> SearchResult list" where
  "internalResults internalProducts rand =
     (case internalProducts of
        None \<Rightarrow> []
      | Some ps \<Rightarrow> map (\<lambda>(i, product). internalResult product (rand i)) (enumerate 0 ps))"

text \<open>\<^verbatim>\<open>x.similarity || 0\<close>\<close>

definition similarityOr0 :: "SearchResult \<Rightarrow> real" where
  "similarityOr0 x = (case similarity x of None \<Rightarrow> 0 | Some v \<Rightarrow> v)"

text \<open>
  \<^verbatim>\<open>[...internalResults, ...externalResults].sort((a, b) => (b.similarity || 0) - (a.similarity || 0)).slice(0, 20)\<close>.
  \<^verbatim>\<open>Array.prototype.sort\<close> is stable, so the result is the stable sort by falling
  similarity.
\<close>

definition allResults :: "SearchResult list \<Rightarrow> SearchResult list" where
  "allResults internalRs =
     take 20 (sort_key (\<lambda>x. - similarityOr0 x) (internalRs @ externalResults))"

text \<open>
  The handler: \<open>file\<close> says whether an image was uploaded, \<open>db\<close> is what the query of the
  published posts gives (a database error is logged and the search goes on; a thrown error
  is answered with status 500 and its message as \<^verbatim>\<open>details\<close>).
\<close>

definition postImage ::
  "bool \<Rightarrow> (Product list option \<times> string option) outcome \<Rightarrow> (nat \<Rightarrow> real) \<Rightarrow> search_response" where
  "postImage file db rand =
     (if \<not> file then Status400 ''No image file provided'' ''NO_IMAGE_FILE''
      else case db of
             Threw e \<Rightarrow>
               Status500 ''Image search failed'' ''IMAGE_SEARCH_ERROR''
                 (case e of Error m \<Rightarrow> Some m | NonError \<Rightarrow> None)
           | Returned (internalProducts, dbError) \<Rightarrow>
               (let rs = allResults (internalResults internalProducts rand) in
                Status200 \<lparr>success = True, results = rs, totalResults = length rs,
                           processingTime = ''1.2s''\<rparr>))"

section \<open>Predicates of the properties\<close>

text \<open>No trace of a session: what the specification asks of the state after \<^verbatim>\<open>logout\<close>.\<close>

definition loggedOut :: "state \<Rightarrow> bool" where
  "loggedOut s \<longleftrightarrow>
     list_all (\<lambda>k. \<not> startsWith k ''sb-'') (keys (localStorage s)) \<and>
     list_all (\<lambda>k. \<not> startsWith k ''sb-'') (keys (sessionStorage s)) \<and>
     getItem (localStorage s) ''auth_user'' = None \<and>
     user s = None \<and> \<not> isAuthenticated s"

text \<open>
  The profile fetch obtains no profile: \<^verbatim>\<open>getUser\<close> throws or reports no user, or the
  profile query and the insert that follows it both throw or answer with an error or without
  a row.
\<close>

definition fetchFails :: "fetch_env \<Rightarrow> bool" where
  "fetchFails env =
     (case getUser_result env of
        Threw e \<Rightarrow> True
      | Returned None \<Rightarrow> True
      | Returned (Some au) \<Rightarrow>
          (case select_result env of
             Threw e \<Rightarrow> True
           | Returned (row, err) \<Rightarrow>
               (err \<noteq> None \<or> row = None) \<and>
               (case insert_result env of
                  Threw e \<Rightarrow> True
                | Returned (newRow, insertError) \<Rightarrow> insertError \<noteq> None \<or> newRow = None)))"

text \<open>
  The hosted-service call of \<^verbatim>\<open>refreshUser\<close> fails: the session check throws, or it
  reports a session and the profile fetch for it fails.
\<close>

definition hostedFailure :: "refresh_env \<Rightarrow> bool" where
  "hostedFailure env =
     (case session_result env of
        Threw e \<Rightarrow> True
      | Returned session \<Rightarrow> tokenOf session \<noteq> None \<and> fetchFails (profile_env env))"

text \<open>
  The in-flight login stays pending along a list of events: the ref holds a promise before
  each of them and after the last.
\<close>

fun stays_pending :: "event list \<Rightarrow> state \<Rightarrow> bool" where
  "stays_pending [] s = (loginPromiseRef s \<noteq> None)"
| "stays_pending (ev # es) s = (loginPromiseRef s \<noteq> None \<and> stays_pending es (step ev s))"

text \<open>
  The cache invariant: a user in memory has a copy under \<^verbatim>\<open>auth_user\<close> in the local
  storage, that is, the stored text parses to that user.
\<close>

definition cacheConsistent :: "state \<Rightarrow> bool" where
  "cacheConsistent s =
     (case user s of
        None \<Rightarrow> True
      | Some u \<Rightarrow>
          (case getItem (localStorage s) ''auth_user'' of
             None \<Rightarrow> False
           | Some text \<Rightarrow> JSON_parse text = Inr (Some u)))"

text \<open>
  What can happen to the first variant's store, one at a time: the check on mount, a
  notification of the hosted service, a profile fetch started in the background, a
  registration, the events of a login, a logout, a profile update and a refresh.
\<close>

datatype action =
    CheckAuth refresh_env
  | AuthStateChange auth_event "Session option" fetch_env
  | FetchUserProfile string fetch_env
  | Register RegisterData api_env
  | LoginEvent event
  | Logout logout_env
  | UpdateUser AuthUserPartial update_env
  | RefreshUser refresh_env

fun perform :: "action \<Rightarrow> state \<Rightarrow> state" where
  "perform (CheckAuth env) s = checkAuth env s"
| "perform (AuthStateChange ev session env) s = onAuthStateChange ev session env s"
| "perform (FetchUserProfile token env) s = fetchUserProfile token env s"
| "perform (Register data env) s = snd (register data env s)"
| "perform (LoginEvent ev) s = step ev s"
| "perform (Logout env) s = logout env s"
| "perform (UpdateUser data env) s = snd (updateUser data env s)"
| "perform (RefreshUser env) s = refreshUser env s"

definition performAll :: "action list \<Rightarrow> state \<Rightarrow> state" where
  "performAll acts s = fold perform acts s"

text \<open>An action that leaves a user in memory either left it as it was or cached it.\<close>

definition wroteTogether :: "state \<Rightarrow> state \<Rightarrow> bool" where
  "wroteTogether s s' \<longleftrightarrow>
     user s' = None \<or> user s' = user s \<or>
     getItem (localStorage s') ''auth_user'' = Some (JSON_stringify (user s'))"

section \<open>Sample inputs\<close>

text \<open>The profile of the registration scenario, used where a property is run on an input.\<close>

definition alice :: AuthUser where
  "alice = \<lparr>id' = ''u1'', name = ''A'', email = ''a@x.com'', phone = None, gender = male,
     is_influencer = False, avatar_url = None, body_type = None, style_preference = None,
     color_season = None, notes' = None, bio = None, category = None,
     created_at = ''2025-01-01T00:00:00.000Z'', updated_at = ''2025-01-01T00:00:00.000Z''\<rparr>"

definition aliceData :: RegisterData where
  "aliceData = \<lparr>reg_name = ''A'', reg_email = ''a@x.com'', reg_password = ''secret1'',
     reg_phone = None, reg_gender = male\<rparr>"

definition aliceAuth :: SupabaseUser where
  "aliceAuth = \<lparr>su_id = ''u1'', su_email = Some ''a@x.com'', su_metadata_name = Some ''A''\<rparr>"

definition aliceSession :: Session where
  "aliceSession = \<lparr>access_token = ''token-1'', refresh_token = ''refresh-1''\<rparr>"

text \<open>A state with \<open>alice\<close> signed in and cached.\<close>

definition signedIn :: state where
  "signedIn = initial\<lparr>user := Some alice, isLoading := False,
     localStorage := [(''auth_user'', Json (Some alice)), (''sb-proj-auth-token'', Text ''t'')],
     sessionStorage := [(''sb-proj-code-verifier'', Text ''v'')]\<rparr>"

text \<open>
  A hosted service that cannot be reached and one that reports no session; a store with a
  cached profile only, and one whose cached text does not parse.
\<close>

definition unreachable :: fetch_env where
  "unreachable = \<lparr>getUser_result = Threw (Error ''Failed to fetch''),
     select_result = Threw (Error ''Failed to fetch''),
     insert_result = Threw (Error ''Failed to fetch''), now = ''2025-01-02T00:00:00.000Z''\<rparr>"

definition noSession :: refresh_env where
  "noSession = \<lparr>session_result = Returned None, profile_env = unreachable\<rparr>"

definition cachedOnly :: state where
  "cachedOnly = initial\<lparr>localStorage := [(''auth_user'', Json (Some alice))]\<rparr>"

definition corruptCache :: state where
  "corruptCache = initial\<lparr>localStorage := [(''auth_user'', Text ''{id:'')]\<rparr>"

text \<open>
  A session whose profile cannot be fetched and a session check that throws; a sign-out that
  fails, and a clean-up whose third statement throws.
\<close>

definition sessionButUnreachable :: refresh_env where
  "sessionButUnreachable = \<lparr>session_result = Returned (Some aliceSession), profile_env = unreachable\<rparr>"

definition sessionCheckThrows :: refresh_env where
  "sessionCheckThrows = \<lparr>session_result = Threw (Error ''Failed to fetch''), profile_env = unreachable\<rparr>"

definition signOutOffline :: logout_env where
  "signOutOffline = \<lparr>signOut_result = Threw (Error ''Failed to fetch''), failsAt = None\<rparr>"

definition cleanupThrows :: logout_env where
  "cleanupThrows = \<lparr>signOut_result = Returned None, failsAt = Some 2\<rparr>"

text \<open>
  Backend answers (a user without a session, a user with a token pair, no user, a refusal),
  logins with them, and a profile update whose row the database stamps itself.
\<close>

definition userOnly :: AuthResponse where
  "userOnly = \<lparr>r_user = Some alice, r_session = None, r_access_token = None, r_refresh_token = None\<rparr>"

definition userWithTokens :: AuthResponse where
  "userWithTokens = userOnly\<lparr>r_access_token := Some ''token-1'', r_refresh_token := Some ''refresh-1''\<rparr>"

definition backendOk :: api_env where
  "backendOk = \<lparr>fetch_result = Returned (Some userOnly), setSession_result = Returned None\<rparr>"

definition backendNoUser :: api_env where
  "backendNoUser = \<lparr>fetch_result = Returned (Some (userOnly\<lparr>r_user := None\<rparr>)),
     setSession_result = Returned None\<rparr>"

definition backendRefuses :: api_env where
  "backendRefuses = \<lparr>fetch_result = Threw (Error ''Invalid credentials''),
     setSession_result = Returned None\<rparr>"

definition wrongPassword :: login_env where
  "wrongPassword = \<lparr>api = backendRefuses, getSession_result = Returned None\<rparr>"

definition rightPassword :: login_env where
  "rightPassword = \<lparr>api = backendOk, getSession_result = Returned None\<rparr>"

definition setBio :: AuthUserPartial where
  "setBio = emptyPartial\<lparr>p_bio := Some ''x''\<rparr>"

definition bioStored :: update_env where
  "bioStored = \<lparr>update_result = Returned (Some (alice\<lparr>bio := Some ''x'', updated_at := ''T2''\<rparr>), None),
     update_now = ''T1''\<rparr>"

text \<open>One published post, and a random generator that always draws one half.\<close>

definition shoe :: Product where
  "shoe = \<lparr>prod_id = ''p1'', prod_name = ''Running shoe'', prod_description = Some ''Light'',
     prod_price = Some ''4999'', prod_media_urls = Some [''https://cdn.example/shoe.jpg''],
     prod_influencer = Some ''A''\<rparr>"

definition half :: "nat \<Rightarrow> real" where
  "half i = 1 / 2"

section \<open>Properties\<close>

subsection \<open>Storage\<close>

lemma map_of_replace:
  "map_of (map (\<lambda>kv. if fst kv = k then (k, v) else kv) st) k' =
     (if k' = k then (if k \<in> fst ` set st then Some v else None) else map_of st k')"
  by (induction st) (force simp: image_iff)+

lemma getItem_setItem_same: "getItem (setItem st k v) k = Some v"
  by (simp add: getItem_def setItem_def map_of_replace map_add_def map_of_eq_None_iff [symmetric])

lemma getItem_setItem_other: "k' \<noteq> k \<Longrightarrow> getItem (setItem st k v) k' = getItem st k'"
  by (simp add: getItem_def setItem_def map_of_replace map_add_def split: option.splits)

lemma getItem_removeItem_same: "getItem (removeItem st k) k = None"
  by (induction st) (auto simp: getItem_def removeItem_def)

lemma getItem_removeItem_other: "k' \<noteq> k \<Longrightarrow> getItem (removeItem st k) k' = getItem st k'"
  by (induction st) (auto simp: getItem_def removeItem_def)

lemma keys_removeItem: "set (keys (removeItem st k)) = set (keys st) - {k}"
  by (auto simp: keys_def removeItem_def)

lemma keys_fold_remove:
  "set (keys (fold (\<lambda>key acc. if startsWith key pre then removeItem acc key else acc) ks st))
     = set (keys st) - {k \<in> set ks. startsWith k pre}"
  by (induction ks arbitrary: st) (auto simp: keys_removeItem)

lemma keys_removeSupabaseKeys:
  "set (keys (removeSupabaseKeys st)) = {k \<in> set (keys st). \<not> startsWith k ''sb-''}"
  unfolding removeSupabaseKeys_def keys_fold_remove by auto

lemma getItem_removeItem_prefix:
  "\<not> startsWith k pre \<Longrightarrow> startsWith a pre \<Longrightarrow> getItem (removeItem st a) k = getItem st k"
  by (cases "a = k") (auto simp: getItem_removeItem_other)

lemma getItem_fold_remove:
  "\<not> startsWith k pre \<Longrightarrow>
   getItem (fold (\<lambda>key acc. if startsWith key pre then removeItem acc key else acc) ks st) k = getItem st k"
  by (induction ks arbitrary: st) (auto simp: getItem_removeItem_prefix)

lemma getItem_None_iff: "getItem st k = None \<longleftrightarrow> k \<notin> set (keys st)"
  by (simp add: getItem_def keys_def map_of_eq_None_iff)

subsection \<open>updateUser\<close>

text \<open>
  C6. Called while no user is in memory, \<^verbatim>\<open>updateUser\<close> throws (\<open>No user logged in\<close>)
  and sends nothing to the hosted database, writes nothing to either storage area and leaves
  the in-memory user as it was: all it does is show the error toast.
\<close>

theorem updateUser_requires_user:
  "user s = None \<Longrightarrow>
     fst (updateUser data env s) = Inl (Error ''No user logged in'') \<and>
     requests (snd (updateUser data env s)) = requests s \<and>
     localStorage (snd (updateUser data env s)) = localStorage s \<and>
     sessionStorage (snd (updateUser data env s)) = sessionStorage s \<and>
     user (snd (updateUser data env s)) = None"
  by (simp add: updateUser_def toast_def)

theorem updateUser_requires_user_witness:
  "user initial = None \<and>
   fst (updateUser (emptyPartial\<lparr>p_bio := Some ''x''\<rparr>)
          \<lparr>update_result = Returned (None, None), update_now = ''2025-01-01T00:00:00.000Z''\<rparr> initial)
     = Inl (Error ''No user logged in'') \<and>
   requests (snd (updateUser (emptyPartial\<lparr>p_bio := Some ''x''\<rparr>)
          \<lparr>update_result = Returned (None, None), update_now = ''2025-01-01T00:00:00.000Z''\<rparr> initial)) = []"
  using updateUser_requires_user [of initial "emptyPartial\<lparr>p_bio := Some ''x''\<rparr>"
      "\<lparr>update_result = Returned (None, None), update_now = ''2025-01-01T00:00:00.000Z''\<rparr>"]
  by (simp add: initial_def)

text \<open>
  C7. With a user in memory, \<^verbatim>\<open>updateUser\<close> sends one update to the hosted database: the
  fields of the payload with \<^verbatim>\<open>updated_at\<close> set to the current time, for the row whose id
  is the in-memory user's (an \<^verbatim>\<open>id\<close> in the payload is a column value, not the key).
  When the database answers without an error, the in-memory user and the cached profile both
  become the row it returned, whatever the old profile and the payload were.
  \<^verbatim>\<open>ApiClient.updateUser\<close> likewise keys its update by the id of the user the hosted
  service reports and never by its first argument.
\<close>

theorem updateUser_targeted:
  "user s = Some u \<Longrightarrow>
     requests (snd (updateUser data env s)) =
       requests s @ [DbUpdate (data\<lparr>p_updated_at := Some (update_now env)\<rparr>) (id' u)] \<and>
     (update_result env = Returned (row, None) \<longrightarrow>
        fst (updateUser data env s) = Inr () \<and>
        user (snd (updateUser data env s)) = row \<and>
        getItem (localStorage (snd (updateUser data env s))) ''auth_user'' = Some (JSON_stringify row)) \<and>
     (getUser_pair aenv = Returned (Some au, None) \<longrightarrow>
        requests (snd (apiClient_updateUser anId userData aenv s)) =
          requests s @ [AuthGetUser None,
                        DbUpdate (userData\<lparr>p_updated_at := Some (api_now aenv)\<rparr>) (su_id au)])"
  by (auto simp: updateUser_def apiClient_updateUser_def send_def toast_def storeProfile_def
        getItem_setItem_same Let_def split: outcome.splits option.splits prod.splits)

text \<open>
  The payload \<^verbatim>\<open>{id: "intruder", bio: "x"}\<close> for \<open>alice\<close>: the row updated is \<open>u1\<close>, and
  the profile in memory afterwards is the row the database returned, with its own
  \<^verbatim>\<open>updated_at\<close>.
\<close>

theorem updateUser_targeted_witness:
  "user signedIn = Some alice \<and>
   requests (snd (updateUser (emptyPartial\<lparr>p_id := Some ''intruder'', p_bio := Some ''x''\<rparr>)
       \<lparr>update_result = Returned (Some (alice\<lparr>bio := Some ''x'', updated_at := ''T2''\<rparr>), None),
        update_now = ''T1''\<rparr> signedIn)) =
     [DbUpdate (emptyPartial\<lparr>p_id := Some ''intruder'', p_bio := Some ''x'',
                  p_updated_at := Some ''T1''\<rparr>) ''u1''] \<and>
   user (snd (updateUser (emptyPartial\<lparr>p_id := Some ''intruder'', p_bio := Some ''x''\<rparr>)
       \<lparr>update_result = Returned (Some (alice\<lparr>bio := Some ''x'', updated_at := ''T2''\<rparr>), None),
        update_now = ''T1''\<rparr> signedIn)) =
     Some (alice\<lparr>bio := Some ''x'', updated_at := ''T2''\<rparr>) \<and>
   requests (snd (apiClient_updateUser ''intruder'' (emptyPartial\<lparr>p_bio := Some ''x''\<rparr>)
       \<lparr>getUser_pair = Returned (Some aliceAuth, None),
        api_update_result = Returned (Some alice, None), api_now = ''T1''\<rparr> signedIn)) =
     [AuthGetUser None, DbUpdate (emptyPartial\<lparr>p_bio := Some ''x'', p_updated_at := Some ''T1''\<rparr>) ''u1'']"
  using updateUser_targeted [of signedIn alice
      "emptyPartial\<lparr>p_id := Some ''intruder'', p_bio := Some ''x''\<rparr>"
      "\<lparr>update_result = Returned (Some (alice\<lparr>bio := Some ''x'', updated_at := ''T2''\<rparr>), None),
        update_now = ''T1''\<rparr>"
      "Some (alice\<lparr>bio := Some ''x'', updated_at := ''T2''\<rparr>)"
      "\<lparr>getUser_pair = Returned (Some aliceAuth, None),
        api_update_result = Returned (Some alice, None), api_now = ''T1''\<rparr>"
      aliceAuth "''intruder''" "emptyPartial\<lparr>p_bio := Some ''x''\<rparr>"]
  by (simp add: signedIn_def initial_def alice_def aliceAuth_def)

subsection \<open>register\<close>

text \<open>
  C9. When the backend's answer to a registration carries a user, \<^verbatim>\<open>register\<close> returns
  without throwing, the user is in memory and cached under \<^verbatim>\<open>auth_user\<close>, the store is
  authenticated, and the only toast is the success toast. This holds whether or not the
  answer carries a session and whatever installing that session gives: nothing in
  \<open>register\<close> depends on \<open>r_session response\<close> or \<open>setSession_result env\<close> here.
\<close>

theorem register_without_session:
  "fetch_result env = Returned (Some response) \<Longrightarrow> r_user response = Some u \<Longrightarrow>
     fst (register data env s) = Inr () \<and>
     user (snd (register data env s)) = Some u \<and>
     isAuthenticated (snd (register data env s)) \<and>
     getItem (localStorage (snd (register data env s))) ''auth_user'' = Some (JSON_stringify (Some u)) \<and>
     toasts (snd (register data env s)) = toasts s @ [toast_success ''Account created successfully!'']"
  by (auto simp: register_def apiClient_register_def send_def toast_def storeProfile_def
        isAuthenticated_def getItem_setItem_same Let_def split: option.splits)

text \<open>The scenario of the specification: a backend answering \<^verbatim>\<open>{user: {id: "u1", ...}}\<close> with no session.\<close>

theorem register_without_session_witness:
  "fst (register aliceData
      \<lparr>fetch_result = Returned (Some \<lparr>r_user = Some alice, r_session = None,
          r_access_token = None, r_refresh_token = None\<rparr>),
       setSession_result = Threw (Error ''offline'')\<rparr> initial) = Inr () \<and>
   map_option id' (user (snd (register aliceData
      \<lparr>fetch_result = Returned (Some \<lparr>r_user = Some alice, r_session = None,
          r_access_token = None, r_refresh_token = None\<rparr>),
       setSession_result = Threw (Error ''offline'')\<rparr> initial))) = Some ''u1'' \<and>
   isAuthenticated (snd (register aliceData
      \<lparr>fetch_result = Returned (Some \<lparr>r_user = Some alice, r_session = None,
          r_access_token = None, r_refresh_token = None\<rparr>),
       setSession_result = Threw (Error ''offline'')\<rparr> initial))"
  using register_without_session [of
      "\<lparr>fetch_result = Returned (Some \<lparr>r_user = Some alice, r_session = None,
          r_access_token = None, r_refresh_token = None\<rparr>),
       setSession_result = Threw (Error ''offline'')\<rparr>"
      "\<lparr>r_user = Some alice, r_session = None, r_access_token = None, r_refresh_token = None\<rparr>"
      alice aliceData initial]
  by (simp add: alice_def)

subsection \<open>refreshUser\<close>

text \<open>
  C8. When the hosted service reports no session (or one without an access token) and no
  user is in memory, \<^verbatim>\<open>refreshUser\<close> sets the in-memory user to what the cached profile
  parses to and leaves the cache as it is; a cached text that does not parse is removed from
  the cache and the user stays \<^verbatim>\<open>null\<close>.
\<close>

theorem refreshUser_restores_cache:
  "session_result env = Returned session \<Longrightarrow> tokenOf session = None \<Longrightarrow> user s = None \<Longrightarrow>
     (getItem (localStorage s) ''auth_user'' = Some (Json v) \<longrightarrow>
        user (refreshUser env s) = v \<and> localStorage (refreshUser env s) = localStorage s) \<and>
     (getItem (localStorage s) ''auth_user'' = Some (Text t) \<and> t \<noteq> [] \<longrightarrow>
        user (refreshUser env s) = None \<and>
        getItem (localStorage (refreshUser env s)) ''auth_user'' = None)"
  by (auto simp: refreshUser_def send_def Let_def getItem_removeItem_same)

theorem refreshUser_restores_cache_witness:
  "user (refreshUser noSession cachedOnly) = Some alice \<and>
   localStorage (refreshUser noSession cachedOnly) = [(''auth_user'', Json (Some alice))] \<and>
   user (refreshUser noSession corruptCache) = None \<and>
   getItem (localStorage (refreshUser noSession corruptCache)) ''auth_user'' = None"
  using refreshUser_restores_cache [of noSession None cachedOnly "Some alice" "''x''"]
    refreshUser_restores_cache [of noSession None corruptCache None "''{id:''"]
  by (simp add: noSession_def cachedOnly_def corruptCache_def initial_def tokenOf_def getItem_def)

text \<open>
  In the first variant the profile fetch never clears a user that is in memory, and leaves it
  as it is when it obtains no profile.
\<close>

lemma fetchUserProfile_keeps_user:
  "user s \<noteq> None \<Longrightarrow> user (fetchUserProfile token env s) \<noteq> None"
  by (auto simp: fetchUserProfile_def send_def storeProfile_def Let_def
        split: outcome.splits option.splits prod.splits)

lemma fetchUserProfile_fails:
  "fetchFails env \<Longrightarrow> user (fetchUserProfile token env s) = user s"
  by (auto simp: fetchUserProfile_def fetchFails_def send_def storeProfile_def Let_def
        split: outcome.splits option.splits prod.splits)

lemma fetchUserProfile_v2_fails:
  "fetchFails env \<Longrightarrow> user (fetchUserProfile_v2 token env s) = None"
  by (auto simp: fetchUserProfile_v2_def fetchFails_def send_def toast_def Let_def
        split: outcome.splits option.splits prod.splits)

text \<open>
  C5 (amended). With a user in memory, the first variant's \<^verbatim>\<open>refreshUser\<close> leaves that
  user unchanged whenever its hosted-service call fails (the session check throws, or the
  profile fetch obtains no profile), and whatever the hosted service answers the store is
  still authenticated afterwards. In the second variant only a session check that throws
  leaves the user unchanged: when a session is reported and the profile fetch fails, the
  in-memory user is set to \<^verbatim>\<open>null\<close>.
\<close>

theorem refreshUser_fail_open:
  "user s = Some u \<Longrightarrow>
     (hostedFailure env \<longrightarrow> user (refreshUser env s) = Some u) \<and>
     isAuthenticated (refreshUser env s) \<and>
     (session_result env = Threw e \<longrightarrow> user (refreshUser_v2 env s) = Some u) \<and>
     (session_result env = Returned session \<and> tokenOf session \<noteq> None \<and> fetchFails (profile_env env)
        \<longrightarrow> user (refreshUser_v2 env s) = None)"
  using fetchUserProfile_keeps_user [of "send AuthGetSession s"]
    fetchUserProfile_fails [of "profile_env env" _ "send AuthGetSession s"]
    fetchUserProfile_v2_fails [of "profile_env env" _ "send AuthGetSession s"]
  by (auto simp: refreshUser_def refreshUser_v2_def hostedFailure_def isAuthenticated_def send_def Let_def
        split: outcome.splits option.splits)

theorem refreshUser_fail_open_witness:
  "user signedIn = Some alice \<and> hostedFailure sessionButUnreachable \<and>
   user (refreshUser sessionButUnreachable signedIn) = Some alice \<and>
   hostedFailure sessionCheckThrows \<and>
   user (refreshUser sessionCheckThrows signedIn) = Some alice \<and>
   user (refreshUser_v2 sessionCheckThrows signedIn) = Some alice \<and>
   user (refreshUser_v2 sessionButUnreachable signedIn) = None"
  using refreshUser_fail_open [of signedIn alice sessionButUnreachable "Error ''x''" "Some aliceSession"]
    refreshUser_fail_open [of signedIn alice sessionCheckThrows "Error ''Failed to fetch''" None]
  by (simp add: signedIn_def initial_def sessionButUnreachable_def sessionCheckThrows_def
        hostedFailure_def fetchFails_def unreachable_def tokenOf_def aliceSession_def)

text \<open>
  C5 as first stated does not hold of the second variant: with \<open>alice\<close> in memory, a session
  reported and the hosted service unreachable for the profile fetch, \<^verbatim>\<open>refreshUser\<close>
  ends with no user in memory.
\<close>

theorem refreshUser_v2_counterexample:
  "user signedIn = Some alice \<and> hostedFailure sessionButUnreachable \<and>
   \<not> isAuthenticated (refreshUser_v2 sessionButUnreachable signedIn)"
  by (simp add: refreshUser_v2_def fetchUserProfile_v2_def hostedFailure_def fetchFails_def
        sessionButUnreachable_def unreachable_def aliceSession_def tokenOf_def signedIn_def
        initial_def send_def toast_def isAuthenticated_def)

subsection \<open>logout\<close>

lemma keys_Nil: "keys [] = []"
  by (simp add: keys_def)

lemma no_sb_removeSupabaseKeys:
  "list_all (\<lambda>k. \<not> startsWith k ''sb-'') (keys (removeSupabaseKeys st))"
  by (simp add: list_all_iff keys_removeSupabaseKeys)

lemma auth_user_removeSupabaseKeys:
  "getItem (removeSupabaseKeys st) ''auth_user'' = getItem st ''auth_user''"
  unfolding removeSupabaseKeys_def
  by (rule getItem_fold_remove) (simp add: startsWith_def)

text \<open>The \<^verbatim>\<open>catch\<close> block of the first variant cleans up from any state it is entered in.\<close>

lemma loggedOut_logout_catch: "loggedOut (logout_catch s)"
  by (simp add: logout_catch_def loggedOut_def toast_def Let_def keys_Nil isAuthenticated_def
        no_sb_removeSupabaseKeys auth_user_removeSupabaseKeys getItem_removeItem_same)

lemma loggedOut_logout_try: "loggedOut (runStatements logout_try s)"
  by (simp add: logout_try_def runStatements_def loggedOut_def toast_def keys_Nil isAuthenticated_def
        no_sb_removeSupabaseKeys auth_user_removeSupabaseKeys getItem_removeItem_same)

lemma logout_catch_v3_clears:
  "user (logout_catch_v3 s) = None \<and> getItem (localStorage (logout_catch_v3 s)) ''auth_user'' = None"
  by (simp add: logout_catch_v3_def toast_def Let_def getItem_removeItem_same)

lemma logout_try_v3_clears:
  "user (runStatements logout_try_v3 s) = None \<and>
   getItem (localStorage (runStatements logout_try_v3 s)) ''auth_user'' = None \<and>
   sessionStorage (runStatements logout_try_v3 s) = [] \<and>
   getItem (localStorage (runStatements logout_try_v3 s)) ''supabase.auth.token'' = None"
  by (simp add: logout_try_v3_def runStatements_def toast_def getItem_removeItem_same
        getItem_removeItem_other)

text \<open>
  C4 (amended). After the first variant's \<^verbatim>\<open>logout\<close>, whatever the sign-out call gave and
  whether the clean-up ran through or ended in the \<^verbatim>\<open>catch\<close> block, no key starting with
  \<^verbatim>\<open>sb-\<close> is left in the local or the session storage, \<^verbatim>\<open>auth_user\<close> is removed, the
  user is \<^verbatim>\<open>null\<close> and the store is not authenticated. After the third variant's
  \<^verbatim>\<open>logout\<close>, on either path, \<^verbatim>\<open>auth_user\<close> is removed, the user is \<^verbatim>\<open>null\<close> and the
  store is not authenticated; when its clean-up runs through, the session storage is empty
  and \<^verbatim>\<open>supabase.auth.token\<close> is removed.
\<close>

theorem logout_clears:
  "loggedOut (logout env s) \<and>
   user (logout_v3 env s) = None \<and> \<not> isAuthenticated (logout_v3 env s) \<and>
   getItem (localStorage (logout_v3 env s)) ''auth_user'' = None \<and>
   (failsAt env = None \<longrightarrow>
      sessionStorage (logout_v3 env s) = [] \<and>
      getItem (localStorage (logout_v3 env s)) ''supabase.auth.token'' = None)"
  by (simp add: logout_def loggedOut_logout_catch loggedOut_logout_try logout_v3_def Let_def
        isAuthenticated_def logout_catch_v3_clears logout_try_v3_clears split: option.splits)

theorem logout_clears_witness:
  "localStorage (logout signOutOffline signedIn) = [] \<and>
   sessionStorage (logout signOutOffline signedIn) = [] \<and>
   user (logout signOutOffline signedIn) = None \<and>
   loggedOut (logout cleanupThrows signedIn) \<and>
   failsAt signOutOffline = None \<and>
   user (logout_v3 signOutOffline signedIn) = None \<and>
   sessionStorage (logout_v3 signOutOffline signedIn) = []"
  using logout_clears [of signOutOffline signedIn] logout_clears [of cleanupThrows signedIn]
  by (simp add: logout_def logout_try_def runStatements_def signedIn_def initial_def send_def
        toast_def removeSupabaseKeys_def keys_def removeItem_def startsWith_def signOutOffline_def)

text \<open>
  C4 as first stated does not hold of the third variant: a key \<^verbatim>\<open>sb-proj-auth-token\<close> in the
  local storage is still there after its \<^verbatim>\<open>logout\<close>.
\<close>

theorem logout_v3_counterexample:
  "getItem (localStorage (logout_v3 signOutOffline signedIn)) ''sb-proj-auth-token'' = Some (Text ''t'') \<and>
   \<not> loggedOut (logout_v3 signOutOffline signedIn)"
  by (simp add: logout_v3_def logout_try_v3_def runStatements_def signedIn_def initial_def send_def
        toast_def loggedOut_def keys_def removeItem_def startsWith_def signOutOffline_def getItem_def)

subsection \<open>login\<close>

lemma loginRequests_send:
  "loginRequests (send r s) = loginRequests s @ (if isLoginRequest r then [r] else [])"
  by (simp add: loginRequests_def send_def)

lemma login_call_pending:
  "loginPromiseRef s = Some p \<Longrightarrow> login_call e pw s = s\<lparr>handedOut := handedOut s @ [p]\<rparr>"
  by (simp add: login_call_def)

lemma login_call_idle:
  "loginPromiseRef s = None \<Longrightarrow>
     loginPromiseRef (login_call e pw s) = Some (nextPromise s) \<and>
     loginTask (login_call e pw s) = Some AwaitFetch \<and>
     requests (login_call e pw s) = requests s @ [BackendLogin e pw] \<and>
     handedOut (login_call e pw s) = handedOut s @ [nextPromise s] \<and>
     settled (login_call e pw s) = settled s \<and>
     user (login_call e pw s) = user s \<and>
     localStorage (login_call e pw s) = localStorage s"
  by (simp add: login_call_def send_def Let_def)

text \<open>
  One event while a login is in flight: either the login stays in flight, no login request is
  sent and a call is handed the promise in the ref; or the event completes the task, which
  settles that promise with a boolean.
\<close>

lemma step_pending:
  assumes "loginPromiseRef s = Some p"
  shows "(loginPromiseRef (step ev s) = Some p \<and> settled (step ev s) = settled s \<and>
          loginRequests (step ev s) = loginRequests s \<and>
          handedOut (step ev s) = handedOut s @ (if isCall ev then [p] else []))
       \<or> (loginPromiseRef (step ev s) = None \<and> \<not> isCall ev \<and>
          (\<exists>b. settled (step ev s) = settled s @ [(p, Returned b)]) \<and>
          loginRequests (step ev s) = loginRequests s \<and> handedOut (step ev s) = handedOut s)"
proof (cases ev)
  case (Call e pw)
  then show ?thesis using assms by (simp add: login_call_pending loginRequests_def)
next
  case (FetchSettled r)
  then show ?thesis using assms
    by (auto simp: login_afterFetch_def login_withResponse_def login_catch_def
          login_finally_def clearProfile_def storeProfile_def toast_def send_def loginRequests_def
          Let_def split: option.splits login_phase.splits outcome.splits)
next
  case (SetSessionSettled r)
  then show ?thesis using assms
    by (auto simp: login_afterSetSession_def login_withResponse_def login_catch_def
          login_finally_def clearProfile_def storeProfile_def toast_def send_def loginRequests_def
          Let_def split: option.splits login_phase.splits outcome.splits)
next
  case (GetSessionSettled r)
  then show ?thesis using assms
    by (auto simp: login_afterGetSession_def login_finally_def toast_def loginRequests_def
          Let_def split: option.splits login_phase.splits outcome.splits)
qed

lemma run_pending:
  "loginPromiseRef s = Some p \<Longrightarrow> stays_pending es s \<Longrightarrow>
     loginPromiseRef (run es s) = Some p \<and> settled (run es s) = settled s \<and>
     loginRequests (run es s) = loginRequests s \<and>
     handedOut (run es s) = handedOut s @ replicate (length (filter isCall es)) p"
proof (induction es arbitrary: s)
  case Nil
  then show ?case by (simp add: run_def)
next
  case (Cons ev es)
  from Cons.prems have pend: "stays_pending es (step ev s)" by simp
  then have "loginPromiseRef (step ev s) \<noteq> None" by (cases es) auto
  with step_pending [OF Cons.prems(1), of ev]
  have st: "loginPromiseRef (step ev s) = Some p" "settled (step ev s) = settled s"
    "loginRequests (step ev s) = loginRequests s"
    "handedOut (step ev s) = handedOut s @ (if isCall ev then [p] else [])"
    by auto
  from Cons.IH [OF st(1) pend] st show ?case
    by (simp add: run_def replicate_app_Cons_same)
qed

text \<open>
  C1. A first \<^verbatim>\<open>login\<close> call in an idle store, followed by any events during which that
  login stays pending (further \<^verbatim>\<open>login\<close> calls with any credentials, at any of its
  three \<^verbatim>\<open>await\<close>s): one login request has been sent, the first call's, and every call was handed
  the first call's promise. When a next event completes the login, still no other login
  request has been sent and that one promise settles with a boolean, which every caller
  observes; the ref is cleared.
\<close>

theorem login_single_flight:
  assumes "loginPromiseRef s = None" and "stays_pending es (login_call e pw s)"
  shows "loginRequests (run es (login_call e pw s)) = loginRequests s @ [BackendLogin e pw] \<and>
         handedOut (run es (login_call e pw s)) =
           handedOut s @ replicate (Suc (length (filter isCall es))) (nextPromise s) \<and>
         settled (run es (login_call e pw s)) = settled s \<and>
         (loginPromiseRef (step ev (run es (login_call e pw s))) = None \<longrightarrow>
            loginRequests (step ev (run es (login_call e pw s))) = loginRequests s @ [BackendLogin e pw] \<and>
            handedOut (step ev (run es (login_call e pw s))) =
              handedOut s @ replicate (Suc (length (filter isCall es))) (nextPromise s) \<and>
            (\<exists>b. settled (step ev (run es (login_call e pw s))) =
                   settled s @ [(nextPromise s, Returned b)]))"
proof -
  let ?s1 = "login_call e pw s"
  from login_call_idle [OF assms(1), of e pw]
  have c: "loginPromiseRef ?s1 = Some (nextPromise s)" "requests ?s1 = requests s @ [BackendLogin e pw]"
    "handedOut ?s1 = handedOut s @ [nextPromise s]" "settled ?s1 = settled s"
    by auto
  from c(2) have lr: "loginRequests ?s1 = loginRequests s @ [BackendLogin e pw]"
    by (simp add: loginRequests_def)
  from run_pending [OF c(1) assms(2)] c lr
  have r: "loginPromiseRef (run es ?s1) = Some (nextPromise s)" "settled (run es ?s1) = settled s"
    "loginRequests (run es ?s1) = loginRequests s @ [BackendLogin e pw]"
    "handedOut (run es ?s1) = handedOut s @ replicate (Suc (length (filter isCall es))) (nextPromise s)"
    by (auto simp: replicate_app_Cons_same)
  from step_pending [OF r(1), of ev] r show ?thesis by auto
qed


text \<open>
  Five calls with three pairs of credentials, two before the backend answers, one while the
  session is installed and one while it is looked up: one request, and one promise for all
  five, which every caller sees settle with \<^verbatim>\<open>true\<close>.
\<close>

theorem login_single_flight_witness:
  "loginPromiseRef initial = None \<and>
   stays_pending [Call ''a@x.com'' ''secret1'', Call ''b@x.com'' ''other'',
                  FetchSettled (Returned (Some userWithTokens)), Call ''c@x.com'' ''third'',
                  SetSessionSettled (Returned None), Call ''a@x.com'' ''secret1'']
     (login_call ''a@x.com'' ''secret1'' initial) \<and>
   loginRequests (step (GetSessionSettled (Returned None))
      (run [Call ''a@x.com'' ''secret1'', Call ''b@x.com'' ''other'',
            FetchSettled (Returned (Some userWithTokens)), Call ''c@x.com'' ''third'',
            SetSessionSettled (Returned None), Call ''a@x.com'' ''secret1'']
         (login_call ''a@x.com'' ''secret1'' initial)))
     = [BackendLogin ''a@x.com'' ''secret1''] \<and>
   handedOut (step (GetSessionSettled (Returned None))
      (run [Call ''a@x.com'' ''secret1'', Call ''b@x.com'' ''other'',
            FetchSettled (Returned (Some userWithTokens)), Call ''c@x.com'' ''third'',
            SetSessionSettled (Returned None), Call ''a@x.com'' ''secret1'']
         (login_call ''a@x.com'' ''secret1'' initial)))
     = [0, 0, 0, 0, 0] \<and>
   settled (step (GetSessionSettled (Returned None))
      (run [Call ''a@x.com'' ''secret1'', Call ''b@x.com'' ''other'',
            FetchSettled (Returned (Some userWithTokens)), Call ''c@x.com'' ''third'',
            SetSessionSettled (Returned None), Call ''a@x.com'' ''secret1'']
         (login_call ''a@x.com'' ''secret1'' initial)))
     = [(0, Returned True)] \<and>
   promiseValue (step (GetSessionSettled (Returned None))
      (run [Call ''a@x.com'' ''secret1'', Call ''b@x.com'' ''other'',
            FetchSettled (Returned (Some userWithTokens)), Call ''c@x.com'' ''third'',
            SetSessionSettled (Returned None), Call ''a@x.com'' ''secret1'']
         (login_call ''a@x.com'' ''secret1'' initial))) 0
     = Some (Returned True)"
proof -
  let ?es = "[Call ''a@x.com'' ''secret1'', Call ''b@x.com'' ''other'',
              FetchSettled (Returned (Some userWithTokens)), Call ''c@x.com'' ''third'',
              SetSessionSettled (Returned None), Call ''a@x.com'' ''secret1'']"
  have idle: "loginPromiseRef initial = None"
    by (simp add: initial_def)
  have pend: "stays_pending ?es (login_call ''a@x.com'' ''secret1'' initial)"
    by (simp add: initial_def login_call_def login_afterFetch_def login_afterSetSession_def
          login_withResponse_def userWithTokens_def userOnly_def isAuthWithTokens_def userOf_def
          storeProfile_def send_def Let_def)
  have fin: "settled (step (GetSessionSettled (Returned None))
      (run ?es (login_call ''a@x.com'' ''secret1'' initial))) = [(0, Returned True)]"
    by (simp add: run_def initial_def login_call_def login_afterFetch_def login_afterSetSession_def
          login_withResponse_def login_afterGetSession_def login_finally_def tokenOf_def toast_def
          userWithTokens_def userOnly_def isAuthWithTokens_def userOf_def storeProfile_def send_def
          Let_def)
  have fin2: "loginPromiseRef (step (GetSessionSettled (Returned None))
      (run ?es (login_call ''a@x.com'' ''secret1'' initial))) = None"
    by (simp add: run_def initial_def login_call_def login_afterFetch_def login_afterSetSession_def
          login_withResponse_def login_afterGetSession_def login_finally_def tokenOf_def toast_def
          userWithTokens_def userOnly_def isAuthWithTokens_def userOf_def storeProfile_def send_def
          Let_def)
  have more: "loginRequests initial = [] \<and> handedOut initial = [] \<and> nextPromise initial = 0"
    by (simp add: initial_def loginRequests_def)
  from login_single_flight [OF idle pend, of "GetSessionSettled (Returned None)"] fin fin2 more idle pend
  show ?thesis by (simp add: numeral_eq_Suc promiseValue_def)
qed

text \<open>One login from an idle store, run to completion.\<close>

lemma login_idle_cases:
  assumes "loginPromiseRef s = None"
  shows "\<exists>b. settled (login e pw env s) = settled s @ [(nextPromise s, Returned b)] \<and>
           handedOut (login e pw env s) = handedOut s @ [nextPromise s] \<and>
           (\<not> b \<longrightarrow> user (login e pw env s) = None \<and>
                  getItem (localStorage (login e pw env s)) ''auth_user'' = None) \<and>
           (b \<longleftrightarrow> (\<exists>resp u. fst (apiClient_login_settle (api env) s) = Returned resp \<and> userOf resp = Some u))"
  using assms
  by (auto simp: login_def login_call_def login_afterFetch_def login_afterSetSession_def login_withResponse_def
          apiClient_login_settle_def
        login_afterGetSession_def login_catch_def login_finally_def clearProfile_def
        storeProfile_def toast_def send_def getItem_setItem_same getItem_removeItem_same Let_def
        split: option.splits outcome.splits prod.splits)

lemma login_v3_cases:
  "(fst (apiClient_login e pw aenv (s\<lparr>isLoading := True\<rparr>)) = Threw err \<longrightarrow>
      fst (login_v3 e pw aenv s) = Inl err \<and> user (snd (login_v3 e pw aenv s)) = None \<and>
      getItem (localStorage (snd (login_v3 e pw aenv s))) ''auth_user'' = None) \<and>
   (fst (apiClient_login e pw aenv (s\<lparr>isLoading := True\<rparr>)) = Returned resp \<and> userOf resp = None \<longrightarrow>
      fst (login_v3 e pw aenv s) = Inr () \<and> user (snd (login_v3 e pw aenv s)) = None \<and>
      getItem (localStorage (snd (login_v3 e pw aenv s))) ''auth_user'' = None)"
  by (auto simp: login_v3_def apiClient_login_def apiClient_login_settle_def clearProfile_def userOf_def
        storeProfile_def toast_def send_def getItem_removeItem_same Let_def
        split: option.splits outcome.splits prod.splits)

text \<open>
  Whatever the state, an event of a login settles no promise or settles one with a boolean;
  when that boolean is \<^verbatim>\<open>false\<close>, the user and the cached profile are gone.
\<close>

lemma step_settles_boolean:
  "settled (step ev s) = settled s \<or>
   (\<exists>p b. settled (step ev s) = settled s @ [(p, Returned b)] \<and>
      (\<not> b \<longrightarrow> user (step ev s) = None \<and>
                   getItem (localStorage (step ev s)) ''auth_user'' = None))"
  by (cases ev)
     (auto simp: login_call_def login_afterFetch_def login_afterSetSession_def login_withResponse_def
          apiClient_login_settle_def
        login_afterGetSession_def login_catch_def login_finally_def clearProfile_def
        storeProfile_def toast_def send_def Let_def getItem_removeItem_same
        split: option.splits login_phase.splits outcome.splits prod.splits)

text \<open>
  C2 (amended). In the first variant a \<^verbatim>\<open>login\<close> called with no login in flight settles
  its promise with a boolean, never with an error; the boolean is \<^verbatim>\<open>false\<close> exactly when
  \<^verbatim>\<open>apiClient.login\<close> throws or its answer carries no user, and then the in-memory user is
  \<^verbatim>\<open>null\<close> and \<^verbatim>\<open>auth_user\<close> is removed. In any state, in flight or not, an event of
  a login settles a promise only with a boolean, and with \<^verbatim>\<open>false\<close> only after the user
  and the cached profile are cleared. The third variant's \<^verbatim>\<open>login\<close> returns no value: when
  \<^verbatim>\<open>apiClient.login\<close> throws it clears the user and the cached profile and throws the
  error on; when the answer carries no user it clears both and returns.
\<close>

theorem login_resolves:
  assumes "loginPromiseRef s = None"
  shows "(\<exists>b. settled (login e pw env s) = settled s @ [(nextPromise s, Returned b)] \<and>
           handedOut (login e pw env s) = handedOut s @ [nextPromise s] \<and>
           (\<not> b \<longrightarrow> user (login e pw env s) = None \<and>
                  getItem (localStorage (login e pw env s)) ''auth_user'' = None) \<and>
           (b \<longleftrightarrow> (\<exists>resp u. fst (apiClient_login_settle (api env) s) = Returned resp \<and>
                             userOf resp = Some u))) \<and>
         (fst (apiClient_login e pw aenv (s\<lparr>isLoading := True\<rparr>)) = Threw err \<longrightarrow>
            fst (login_v3 e pw aenv s) = Inl err \<and> user (snd (login_v3 e pw aenv s)) = None \<and>
            getItem (localStorage (snd (login_v3 e pw aenv s))) ''auth_user'' = None) \<and>
         (fst (apiClient_login e pw aenv (s\<lparr>isLoading := True\<rparr>)) = Returned resp \<and> userOf resp = None \<longrightarrow>
            fst (login_v3 e pw aenv s) = Inr () \<and> user (snd (login_v3 e pw aenv s)) = None \<and>
            getItem (localStorage (snd (login_v3 e pw aenv s))) ''auth_user'' = None) \<and>
         (settled (step ev t) = settled t \<or>
          (\<exists>p b. settled (step ev t) = settled t @ [(p, Returned b)] \<and>
             (\<not> b \<longrightarrow> user (step ev t) = None \<and>
                          getItem (localStorage (step ev t)) ''auth_user'' = None)))"
  using login_idle_cases [OF assms, of e pw env] login_v3_cases [of e pw aenv s err resp]
    step_settles_boolean [of ev t]
  by blast

theorem login_resolves_witness:
  "loginPromiseRef signedIn = None \<and>
   settled (login ''a@x.com'' ''wrong'' wrongPassword signedIn) = [(0, Returned False)] \<and>
   user (login ''a@x.com'' ''wrong'' wrongPassword signedIn) = None \<and>
   getItem (localStorage (login ''a@x.com'' ''wrong'' wrongPassword signedIn)) ''auth_user'' = None \<and>
   fst (apiClient_login ''a@x.com'' ''wrong'' backendNoUser (signedIn\<lparr>isLoading := True\<rparr>))
     = Returned (Some (userOnly\<lparr>r_user := None\<rparr>)) \<and>
   userOf (Some (userOnly\<lparr>r_user := None\<rparr>)) = None \<and>
   fst (login_v3 ''a@x.com'' ''wrong'' backendNoUser signedIn) = Inr () \<and>
   user (snd (login_v3 ''a@x.com'' ''wrong'' backendNoUser signedIn)) = None \<and>
   fst (apiClient_login ''a@x.com'' ''wrong'' backendRefuses (signedIn\<lparr>isLoading := True\<rparr>))
     = Threw (Error ''Invalid credentials'') \<and>
   user (snd (login_v3 ''a@x.com'' ''wrong'' backendRefuses signedIn)) = None \<and>
   settled (step (FetchSettled (Threw (Error ''Invalid credentials'')))
              (login_call ''a@x.com'' ''wrong'' signedIn)) = [(0, Returned False)] \<and>
   user (step (FetchSettled (Threw (Error ''Invalid credentials'')))
           (login_call ''a@x.com'' ''wrong'' signedIn)) = None"
proof -
  have idle: "loginPromiseRef signedIn = None"
    by (simp add: signedIn_def initial_def)
  have run: "settled (login ''a@x.com'' ''wrong'' wrongPassword signedIn) = [(0, Returned False)]"
    by (simp add: login_def login_call_def login_afterFetch_def login_afterSetSession_def
          login_withResponse_def login_afterGetSession_def login_catch_def login_finally_def
          clearProfile_def toast_def send_def wrongPassword_def backendRefuses_def signedIn_def
          initial_def Let_def)
  have api: "fst (apiClient_login ''a@x.com'' ''wrong'' backendNoUser (signedIn\<lparr>isLoading := True\<rparr>))
      = Returned (Some (userOnly\<lparr>r_user := None\<rparr>))"
    by (simp add: apiClient_login_def apiClient_login_settle_def backendNoUser_def userOnly_def
          isAuthWithTokens_def)
  have nouser: "userOf (Some (userOnly\<lparr>r_user := None\<rparr>)) = None"
    by (simp add: userOf_def)
  have refused: "fst (apiClient_login ''a@x.com'' ''wrong'' backendRefuses (signedIn\<lparr>isLoading := True\<rparr>))
      = Threw (Error ''Invalid credentials'')"
    by (simp add: apiClient_login_def apiClient_login_settle_def backendRefuses_def)
  have event: "settled (step (FetchSettled (Threw (Error ''Invalid credentials'')))
      (login_call ''a@x.com'' ''wrong'' signedIn)) = [(0, Returned False)]"
    by (simp add: login_call_def login_afterFetch_def login_catch_def login_finally_def
          clearProfile_def toast_def send_def signedIn_def initial_def Let_def)
  have start: "settled (login_call ''a@x.com'' ''wrong'' signedIn) = []"
    by (simp add: login_call_def send_def signedIn_def initial_def Let_def)
  from login_resolves [OF idle, of "''a@x.com''" "''wrong''" wrongPassword backendNoUser
      "Error ''x''" "Some (userOnly\<lparr>r_user := None\<rparr>)"
      "FetchSettled (Threw (Error ''Invalid credentials''))" "login_call ''a@x.com'' ''wrong'' signedIn"]
    login_resolves [OF idle, of "''a@x.com''" "''wrong''" wrongPassword backendRefuses
      "Error ''Invalid credentials''" None
      "FetchSettled (Threw (Error ''Invalid credentials''))" "login_call ''a@x.com'' ''wrong'' signedIn"]
    idle run api nouser refused event start
  show ?thesis by auto
qed

text \<open>
  C2 as first stated does not hold of the third variant: when the backend refuses the credentials,
  its \<^verbatim>\<open>login\<close> rejects with the backend's error.
\<close>

theorem login_v3_counterexample:
  "fst (login_v3 ''a@x.com'' ''wrong'' backendRefuses signedIn) = Inl (Error ''Invalid credentials'')"
  by (simp add: login_v3_def apiClient_login_def apiClient_login_settle_def backendRefuses_def)

subsection \<open>The cache invariant\<close>

lemma cacheConsistent_iff:
  "cacheConsistent s \<longleftrightarrow>
     (\<forall>u. user s = Some u \<longrightarrow>
        (\<exists>text. getItem (localStorage s) ''auth_user'' = Some text \<and> JSON_parse text = Inr (Some u)))"
  by (auto simp: cacheConsistent_def split: option.splits)

text \<open>The two writes of a profile, and the two of its removal, keep the invariant.\<close>

lemma cc_storeProfile: "cacheConsistent (storeProfile p s)"
  by (simp add: cacheConsistent_iff storeProfile_def getItem_setItem_same JSON_stringify_def)

lemma cc_clearProfile: "cacheConsistent (clearProfile s)"
  by (simp add: cacheConsistent_iff clearProfile_def)

lemma cc_cong:
  "user s' = user s \<Longrightarrow> localStorage s' = localStorage s \<Longrightarrow> cacheConsistent s' = cacheConsistent s"
  by (simp add: cacheConsistent_iff)

lemma cc_send: "cacheConsistent (send r s) = cacheConsistent s"
  by (simp add: cacheConsistent_iff send_def)

lemma cc_toast: "cacheConsistent (toast t s) = cacheConsistent s"
  by (simp add: cacheConsistent_iff toast_def)

lemma cc_isLoading: "cacheConsistent (s\<lparr>isLoading := b\<rparr>) = cacheConsistent s"
  by (simp add: cacheConsistent_iff)

text \<open>Each operation of the store keeps the invariant.\<close>

lemma cc_fetchUserProfile: "cacheConsistent s \<Longrightarrow> cacheConsistent (fetchUserProfile token env s)"
  by (auto simp: fetchUserProfile_def Let_def cc_isLoading cc_send cc_storeProfile
        split: outcome.splits option.splits prod.splits)

lemma cc_checkAuth: "cacheConsistent s \<Longrightarrow> cacheConsistent (checkAuth env s)"
  by (auto simp: checkAuth_def Let_def cc_isLoading cc_send cc_clearProfile cc_fetchUserProfile
        split: outcome.splits option.splits)

lemma cc_onAuthStateChange: "cacheConsistent s \<Longrightarrow> cacheConsistent (onAuthStateChange ev session env s)"
  by (auto simp: onAuthStateChange_def cc_isLoading cc_clearProfile cc_fetchUserProfile
        split: auth_event.splits option.splits)

lemma cc_register: "cacheConsistent s \<Longrightarrow> cacheConsistent (snd (register data env s))"
  by (auto simp: register_def apiClient_register_def Let_def cc_isLoading cc_send cc_toast
        cc_storeProfile split: outcome.splits option.splits)

lemma cc_login_finally: "cacheConsistent (login_finally b p s) = cacheConsistent s"
  by (simp add: cacheConsistent_iff login_finally_def)

lemma cc_step: "cacheConsistent s \<Longrightarrow> cacheConsistent (step ev s)"
proof (cases ev)
  case (Call e pw)
  then show "cacheConsistent s \<Longrightarrow> ?thesis"
    by (auto simp: login_call_def cacheConsistent_iff send_def Let_def split: option.splits)
next
  case (FetchSettled r)
  have loginTask: "\<And>x t. cacheConsistent (x\<lparr>loginTask := t\<rparr>) = cacheConsistent x"
    by (simp add: cacheConsistent_iff)
  from FetchSettled show "cacheConsistent s \<Longrightarrow> ?thesis"
    by (auto simp: login_afterFetch_def login_withResponse_def login_catch_def Let_def
          cc_login_finally cc_clearProfile cc_send cc_toast cc_storeProfile loginTask
          split: option.splits login_phase.splits outcome.splits)
next
  case (SetSessionSettled r)
  have loginTask: "\<And>x t. cacheConsistent (x\<lparr>loginTask := t\<rparr>) = cacheConsistent x"
    by (simp add: cacheConsistent_iff)
  from SetSessionSettled show "cacheConsistent s \<Longrightarrow> ?thesis"
    by (auto simp: login_afterSetSession_def login_withResponse_def login_catch_def Let_def
          cc_login_finally cc_clearProfile cc_send cc_toast cc_storeProfile loginTask
          split: option.splits login_phase.splits outcome.splits)
next
  case (GetSessionSettled r)
  have bg: "\<And>x t. cacheConsistent (x\<lparr>background := t\<rparr>) = cacheConsistent x"
    by (simp add: cacheConsistent_iff)
  from GetSessionSettled show "cacheConsistent s \<Longrightarrow> ?thesis"
    by (auto simp: login_afterGetSession_def Let_def cc_login_finally cc_toast bg
          split: option.splits login_phase.splits outcome.splits)
qed

lemma loggedOut_logout: "loggedOut (logout env s)"
  by (simp add: logout_def loggedOut_logout_catch loggedOut_logout_try Let_def split: option.splits)

lemma cc_logout: "cacheConsistent (logout env s)"
  using loggedOut_logout [of env s] by (simp add: loggedOut_def cacheConsistent_iff)

lemma cc_updateUser: "cacheConsistent s \<Longrightarrow> cacheConsistent (snd (updateUser data env s))"
  by (auto simp: updateUser_def Let_def cc_send cc_toast cc_storeProfile
        split: outcome.splits option.splits)

lemma cc_refreshUser: "cacheConsistent s \<Longrightarrow> cacheConsistent (refreshUser env s)"
  by (auto simp: refreshUser_def Let_def cc_send cc_fetchUserProfile
        split: outcome.splits option.splits sum.splits)
     (auto simp: cacheConsistent_iff send_def)

lemma cc_perform: "cacheConsistent s \<Longrightarrow> cacheConsistent (perform a s)"
  by (cases a)
     (simp_all add: cc_checkAuth cc_onAuthStateChange cc_fetchUserProfile cc_register cc_step
        cc_logout cc_updateUser cc_refreshUser)

lemma cc_performAll: "cacheConsistent s \<Longrightarrow> cacheConsistent (performAll acts s)"
  unfolding performAll_def by (induction acts arbitrary: s) (simp_all add: cc_perform)

text \<open>The operations that set the user write the cache with it.\<close>

lemma wt_fetchUserProfile: "wroteTogether s (fetchUserProfile token env s)"
  by (auto simp: wroteTogether_def fetchUserProfile_def send_def storeProfile_def Let_def
        getItem_setItem_same split: outcome.splits option.splits prod.splits)

lemma wt_register: "wroteTogether s (snd (register data env s))"
  by (auto simp: wroteTogether_def register_def apiClient_register_def send_def toast_def
        storeProfile_def Let_def getItem_setItem_same split: outcome.splits option.splits)

lemma wt_updateUser: "wroteTogether s (snd (updateUser data env s))"
  by (auto simp: wroteTogether_def updateUser_def send_def toast_def storeProfile_def Let_def
        getItem_setItem_same split: outcome.splits option.splits)

lemma wt_step: "wroteTogether s (step ev s)"
  by (cases ev)
     (auto simp: wroteTogether_def login_call_def login_afterFetch_def login_afterSetSession_def login_withResponse_def
          apiClient_login_settle_def
        login_afterGetSession_def login_catch_def login_finally_def clearProfile_def
        storeProfile_def toast_def send_def Let_def getItem_setItem_same
        split: option.splits login_phase.splits outcome.splits prod.splits)



lemma login_success_cached:
  assumes "loginPromiseRef s = None"
    and "settled (login e pw env s) = settled s @ [(nextPromise s, Returned True)]"
  shows "isAuthenticated (login e pw env s) \<and>
         getItem (localStorage (login e pw env s)) ''auth_user'' =
           Some (JSON_stringify (user (login e pw env s)))"
  using assms
  by (auto simp: login_def login_call_def login_afterFetch_def login_afterSetSession_def login_withResponse_def
          apiClient_login_settle_def
        login_afterGetSession_def login_catch_def login_finally_def clearProfile_def
        storeProfile_def toast_def send_def getItem_setItem_same Let_def isAuthenticated_def
        split: option.splits outcome.splits prod.splits if_splits)

text \<open>
  C3. Started with no user in memory (or in any state where the cache holds the user in
  memory), the store keeps the cache invariant through every list of actions: whenever it is
  authenticated, the text under \<^verbatim>\<open>auth_user\<close> in the local storage parses to the user in
  memory. After a \<^verbatim>\<open>login\<close> that resolves to \<^verbatim>\<open>true\<close> the store is authenticated and
  the cached text is the serialized in-memory user. A login event, \<^verbatim>\<open>register\<close>, the
  profile fetch and \<^verbatim>\<open>updateUser\<close> each either leave the in-memory user as it was, or
  clear it, or have written the cache with it.
\<close>

theorem cache_invariant:
  "(user s = None \<or> cacheConsistent s \<longrightarrow> cacheConsistent (performAll acts s)) \<and>
   (loginPromiseRef s = None \<and>
    settled (login e pw env s) = settled s @ [(nextPromise s, Returned True)] \<longrightarrow>
      isAuthenticated (login e pw env s) \<and>
      getItem (localStorage (login e pw env s)) ''auth_user'' =
        Some (JSON_stringify (user (login e pw env s)))) \<and>
   wroteTogether s (step ev s) \<and>
   wroteTogether s (snd (register data renv s)) \<and>
   wroteTogether s (fetchUserProfile token fenv s) \<and>
   wroteTogether s (snd (updateUser pdata uenv s))"
proof -
  have "user s = None \<Longrightarrow> cacheConsistent s"
    by (simp add: cacheConsistent_iff)
  then have "user s = None \<or> cacheConsistent s \<longrightarrow> cacheConsistent (performAll acts s)"
    using cc_performAll [of s acts] by blast
  then show ?thesis
    using login_success_cached [of s e pw env] wt_step [of s ev] wt_register [of s data renv]
      wt_fetchUserProfile [of s token fenv] wt_updateUser [of s pdata uenv]
    by blast
qed

text \<open>A login, a profile update and a refresh, from the initial state.\<close>

theorem cache_invariant_witness:
  "user initial = None \<and> loginPromiseRef initial = None \<and>
   settled (login ''a@x.com'' ''secret1'' rightPassword initial) = [(0, Returned True)] \<and>
   user (login ''a@x.com'' ''secret1'' rightPassword initial) = Some alice \<and>
   getItem (localStorage (login ''a@x.com'' ''secret1'' rightPassword initial)) ''auth_user'' =
     Some (Json (Some alice)) \<and>
   cacheConsistent (performAll
     [LoginEvent (Call ''a@x.com'' ''secret1''), LoginEvent (FetchSettled (Returned (Some userOnly))),
      LoginEvent (GetSessionSettled (Returned None)), UpdateUser setBio bioStored,
      RefreshUser noSession] initial) \<and>
   user (performAll
     [LoginEvent (Call ''a@x.com'' ''secret1''), LoginEvent (FetchSettled (Returned (Some userOnly))),
      LoginEvent (GetSessionSettled (Returned None)), UpdateUser setBio bioStored,
      RefreshUser noSession] initial) = Some (alice\<lparr>bio := Some ''x'', updated_at := ''T2''\<rparr>)"
proof -
  have start: "user initial = None \<and> loginPromiseRef initial = None \<and> settled initial = [] \<and>
      nextPromise initial = 0"
    by (simp add: initial_def)
  have ok: "settled (login ''a@x.com'' ''secret1'' rightPassword initial) = [(0, Returned True)] \<and>
      user (login ''a@x.com'' ''secret1'' rightPassword initial) = Some alice"
    by (simp add: login_def login_call_def login_afterFetch_def login_afterSetSession_def login_withResponse_def
          apiClient_login_settle_def
          login_afterGetSession_def login_finally_def storeProfile_def toast_def send_def
          rightPassword_def backendOk_def userOnly_def isAuthWithTokens_def userOf_def tokenOf_def
          initial_def Let_def)
  have fin: "user (performAll
     [LoginEvent (Call ''a@x.com'' ''secret1''), LoginEvent (FetchSettled (Returned (Some userOnly))),
      LoginEvent (GetSessionSettled (Returned None)), UpdateUser setBio bioStored,
      RefreshUser noSession] initial) = Some (alice\<lparr>bio := Some ''x'', updated_at := ''T2''\<rparr>)"
    by (simp add: performAll_def login_call_def login_afterFetch_def login_afterSetSession_def login_withResponse_def
          apiClient_login_settle_def
          login_afterGetSession_def login_finally_def storeProfile_def toast_def send_def
          updateUser_def refreshUser_def setBio_def bioStored_def noSession_def
          backendOk_def userOnly_def isAuthWithTokens_def userOf_def tokenOf_def
          initial_def Let_def getItem_def setItem_def)
  from cache_invariant [of initial
      "[LoginEvent (Call ''a@x.com'' ''secret1''), LoginEvent (FetchSettled (Returned (Some userOnly))),
        LoginEvent (GetSessionSettled (Returned None)), UpdateUser setBio bioStored,
        RefreshUser noSession]" "''a@x.com''" "''secret1''" rightPassword] start ok fin
  show ?thesis by (simp add: JSON_stringify_def)
qed

subsection \<open>The image search endpoint\<close>

lemma falling_sort_key:
  "sorted_wrt (\<lambda>a b. similarityOr0 b \<le> similarityOr0 a) (sort_key (\<lambda>x. - similarityOr0 x) xs)"
proof -
  have "sorted (map (\<lambda>x. - similarityOr0 x) (sort_key (\<lambda>x. - similarityOr0 x) xs))"
    by (rule sorted_sort_key)
  then show ?thesis
    by (simp add: sorted_map sorted_wrt_iff_nth_less)
qed

lemma falling_allResults:
  "sorted_wrt (\<lambda>a b. similarityOr0 b \<le> similarityOr0 a) (allResults rs)"
  unfolding allResults_def by (rule sorted_wrt_take) (rule falling_sort_key)

lemma length_allResults: "length (allResults rs) = min 20 (length rs + 2)"
  by (simp add: allResults_def externalResults_def)

lemma mset_allResults:
  "length rs \<le> 18 \<Longrightarrow> mset (allResults rs) = mset rs + mset externalResults"
  by (simp add: allResults_def externalResults_def)

lemma length_internalResults:
  "length (internalResults ps rand) = (case ps of None \<Rightarrow> 0 | Some xs \<Rightarrow> length xs)"
  by (simp add: internalResults_def split: option.splits)

text \<open>
  C10. Whenever the handler answers with status 200, the results are the first 20 entries of
  the internal results followed by the external ones, stably sorted by falling similarity (a
  missing similarity counting as 0); with at most 18 internal results (the query asks for at
  most 10) they are all of them, reordered. The results are in non-increasing order of
  similarity and at most 20, \<^verbatim>\<open>totalResults\<close> is their number and \<^verbatim>\<open>success\<close> is true.
\<close>

theorem postImage_results:
  assumes "postImage file db rand = Status200 body"
  shows "\<exists>ps err. db = Returned (ps, err) \<and>
           results body = take 20 (sort_key (\<lambda>x. - similarityOr0 x)
                                     (internalResults ps rand @ externalResults)) \<and>
           (length (internalResults ps rand) \<le> 18 \<longrightarrow>
              mset (results body) = mset (internalResults ps rand @ externalResults)) \<and>
           sorted_wrt (\<lambda>a b. similarityOr0 b \<le> similarityOr0 a) (results body) \<and>
           length (results body) \<le> 20 \<and>
           totalResults body = length (results body) \<and> success body"
proof -
  from assms obtain ps err where db: "db = Returned (ps, err)" and "file"
    and body: "body = \<lparr>success = True, results = allResults (internalResults ps rand),
      totalResults = length (allResults (internalResults ps rand)), processingTime = ''1.2s''\<rparr>"
    by (auto simp: postImage_def Let_def split: if_splits outcome.splits prod.splits)
  from body show ?thesis
    using db falling_allResults [of "internalResults ps rand"]
      length_allResults [of "internalResults ps rand"]
      mset_allResults [of "internalResults ps rand"]
    by (auto simp: allResults_def)
qed

text \<open>One post drawn at similarity 0.85 comes after the two external results.\<close>

theorem postImage_results_witness:
  "postImage True (Returned (Some [shoe], None)) half =
     Status200 \<lparr>success = True, results = allResults [internalResult shoe (1 / 2)],
       totalResults = 3, processingTime = ''1.2s''\<rparr> \<and>
   map sr_id (allResults [internalResult shoe (1 / 2)]) = [''ext-1'', ''ext-2'', ''p1''] \<and>
   map similarityOr0 (allResults [internalResult shoe (1 / 2)]) = [0.92, 0.87, 0.85]"
proof -
  have run: "postImage True (Returned (Some [shoe], None)) half =
     Status200 \<lparr>success = True, results = allResults [internalResult shoe (1 / 2)],
       totalResults = 3, processingTime = ''1.2s''\<rparr>"
    by (simp add: postImage_def internalResults_def half_def allResults_def externalResults_def Let_def)
  have order: "map sr_id (allResults [internalResult shoe (1 / 2)]) = [''ext-1'', ''ext-2'', ''p1''] \<and>
     map similarityOr0 (allResults [internalResult shoe (1 / 2)]) = [0.92, 0.87, 0.85]"
    by (simp add: allResults_def externalResults_def internalResult_def similarityOr0_def shoe_def)
  from postImage_results [OF run] run order show ?thesis by simp
qed

end
